theory Spec2Isabelle
  imports Main "HOL-Library.Sublist" "HOL-Library.AList"
begin

section \<open>Errors\<close>

text \<open>
  Go errors are values.  \<open>NotFound\<close> and \<open>AlreadyExists\<close> are the two API status
  errors the controller can tell apart, \<open>Err\<close> is any other failure with its
  message, \<open>Wrapped p e\<close> is \<^verbatim>\<open>fmt.Errorf("p: %w", e)\<close>, and \<open>Panic\<close> is a nil
  dereference.
\<close>

datatype error =
    NotFound
  | AlreadyExists
  | Err string
  | Wrapped string error
  | Panic string

text \<open>\<^verbatim>\<open>k8serrors.IsNotFound\<close>: looks through wrapping for the not-found status.\<close>

fun IsNotFound :: "error \<Rightarrow> bool" where
  "IsNotFound NotFound = True"
| "IsNotFound (Wrapped p e) = IsNotFound e"
| "IsNotFound e = False"

text \<open>The \<^verbatim>\<open>Error()\<close> method, as \<^verbatim>\<open>%v\<close> prints an error.\<close>

fun Error :: "error \<Rightarrow> string" where
  "Error NotFound = ''not found''"
| "Error AlreadyExists = ''already exists''"
| "Error (Err m) = m"
| "Error (Wrapped p e) = p @ '': '' @ Error e"
| "Error (Panic m) = ''panic: '' @ m"

section \<open>Formatting\<close>

text \<open>\<^verbatim>\<open>%d\<close> of \<^verbatim>\<open>fmt.Sprintf\<close>: the decimal digits, a minus sign before a negative number.\<close>

definition digitChar :: "nat \<Rightarrow> char" where
  "digitChar k = ''0123456789'' ! k"

fun fmtNat :: "nat \<Rightarrow> string" where
  "fmtNat n = (if 10 \<le> n then fmtNat (n div 10) @ [digitChar (n mod 10)] else [digitChar n])"

declare fmtNat.simps [simp del]

definition fmtInt :: "int \<Rightarrow> string" where
  "fmtInt i = (if 0 \<le> i then fmtNat (nat i) else CHR ''-'' # fmtNat (nat (- i)))"

section \<open>The distribution resource\<close>

type_synonym key = "string \<times> string"
  \<comment> \<open>\<^verbatim>\<open>types.NamespacedName\<close>: namespace, then name\<close>

record DistributionType =
  dist_Name :: string
  dist_Image :: string

record StorageSpec =
  storage_Size :: "string option"

record PodOverrides =
  po_ServiceAccountName :: string

text \<open>
  Modelled from the spec: the port list of the server's container (the field
  declarations of \<^verbatim>\<open>llamav1alpha1\<close> are not part of the controller file).  The spec
  has "optional port list (defaults to a single well-known port if absent)".
\<close>

record ServerSpec =
  srv_Distribution :: DistributionType
  srv_Storage :: "StorageSpec option"
  srv_PodOverrides :: "PodOverrides option"
  srv_Ports :: "int list"

text \<open>
  Replica counts are \<^verbatim>\<open>int32\<close> in the source; the controller only compares and
  prints them, so they are integers here.
\<close>

record LlamaStackDistributionSpec =
  spec_Replicas :: int
  spec_Server :: ServerSpec

datatype Phase =
    PhaseUnset
  | LlamaStackDistributionPhasePending
  | LlamaStackDistributionPhaseInitializing
  | LlamaStackDistributionPhaseReady
  | LlamaStackDistributionPhaseFailed

text \<open>
  Modelled from the spec: a provider descriptor, declared in package \<^verbatim>\<open>llamav1alpha1\<close>.
  The spec has "name/type/status fields, opaque to this core beyond pass-through".
\<close>

datatype ProviderInfo = ProviderInfo string string string

datatype ConditionType =
    ConditionTypeDeploymentReady
  | ConditionTypeHealthCheck
  | ConditionTypeStorageReady
  | ConditionTypeServiceReady

text \<open>
  Modelled from the spec: a condition, declared in package \<^verbatim>\<open>llamav1alpha1\<close>.  The spec
  has each hold "a boolean readiness flag, a short reason, and a human-readable
  message"; it does not say which reason the setters record, so the model keeps the
  flag and the message.
\<close>

record Condition =
  cond_Ready :: bool
  cond_Message :: string

record VersionInfo =
  ver_OperatorVersion :: string
  ver_LlamaStackVersion :: string
  ver_LastUpdated :: nat

record DistributionConfig =
  dc_ActiveDistribution :: string
  dc_AvailableDistributions :: "string \<rightharpoonup> string"
  dc_Providers :: "ProviderInfo list"

record LlamaStackDistributionStatus =
  st_Phase :: Phase
  st_Conditions :: "ConditionType \<rightharpoonup> Condition"
  st_AvailableReplicas :: int
  st_DistributionConfig :: DistributionConfig
  st_Version :: VersionInfo

record LlamaStackDistribution =
  lsd_Name :: string
  lsd_Namespace :: string
  lsd_Spec :: LlamaStackDistributionSpec
  lsd_Status :: LlamaStackDistributionStatus

section \<open>Child resources\<close>

record PersistentVolumeClaim =
  pvc_Name :: string
  pvc_Namespace :: string
  pvc_Owner :: "key option"
  pvc_AccessModes :: "string list"
  pvc_StorageRequest :: string
  pvc_Phase :: string

text \<open>
  Modelled from the spec: the pod template built by \<^verbatim>\<open>buildContainerSpec\<close> and
  \<^verbatim>\<open>configurePodStorage\<close>, which live in another file of the package.  The spec
  only says that the template is constructed deterministically from the instance
  and the resolved image, so the model keeps the image, whether the claim is
  mounted, and the service account the controller file itself sets.
\<close>

record PodSpec =
  pod_Image :: string
  pod_ClaimName :: "string option"
  pod_ServiceAccountName :: string

record Deployment =
  dep_Name :: string
  dep_Namespace :: string
  dep_Owner :: "key option"
  dep_Replicas :: int
  dep_Selector :: "(string \<times> string) list"
  dep_TemplateLabels :: "(string \<times> string) list"
  dep_PodSpec :: PodSpec
  dep_ReadyReplicas :: int

record Service =
  svc_Name :: string
  svc_Namespace :: string
  svc_Owner :: "key option"
  svc_Selector :: "(string \<times> string) list"
  svc_Ports :: "(string \<times> int \<times> int) list"
  svc_Type :: string

record NetworkPolicyPeer =
  peer_PodSelector :: "(string \<times> string) list option"
  peer_NamespaceSelector :: "(string \<times> string) list option"

record NetworkPolicyIngressRule =
  rule_From :: "NetworkPolicyPeer list"
  rule_Ports :: "(string \<times> int) list"

record NetworkPolicy =
  np_Name :: string
  np_Namespace :: string
  np_Owner :: "key option"
  np_PodSelector :: "(string \<times> string) list"
  np_PolicyTypes :: "string list"
  np_Ingress :: "NetworkPolicyIngressRule list"

section \<open>The cluster and the environment of a pass\<close>

datatype kind = KindPVC | KindDeployment | KindService | KindNetworkPolicy | KindStatus

datatype verb = Create | Update | Delete

text \<open>
  The resource store the client talks to, with the log of every write call the
  pass has issued (a call is logged when it is made, whether or not it succeeds)
  and the URLs of the HTTP requests it has sent.
\<close>

record cluster =
  lsds :: "key \<rightharpoonup> LlamaStackDistribution"
  pvcs :: "key \<rightharpoonup> PersistentVolumeClaim"
  deployments :: "key \<rightharpoonup> Deployment"
  services :: "key \<rightharpoonup> Service"
  networkPolicies :: "key \<rightharpoonup> NetworkPolicy"
  calls :: "(verb \<times> kind \<times> key) list"
  requests :: "string list"

text \<open>Every place of a pass that calls out; each is reached at most once per pass.\<close>

datatype site =
    SiteFetchInstance
  | SiteSetControllerReference
  | SitePVCGet
  | SitePVCCreate
  | SiteNetworkPolicy
  | SiteDeployment
  | SiteService
  | SiteStatusDeploymentGet
  | SiteStatusPVCGet
  | SiteStatusServiceGet
  | SiteStatusUpdate

datatype http_outcome =
    NewRequestError error
  | DoError error
  | Response int "error + string"
  \<comment> \<open>status code, and what \<^verbatim>\<open>io.ReadAll\<close> gives for the body\<close>

text \<open>
  What a pass reads from outside: which call sites fail (with a message; a failure
  injected here is never a not-found), the answers of the HTTP endpoints by URL,
  the JSON decoder, the operator namespace lookup, the process environment and the
  clock.  The named constants of the package that the controller file uses but does
  not declare are parameters here as well.
\<close>

record env =
  fault :: "site \<Rightarrow> string option"
  http :: "string \<Rightarrow> http_outcome"
  json_Unmarshal :: "string \<Rightarrow> error + ProviderInfo list"
  GetOperatorNamespace :: "error + string"
  Getenv :: "string \<Rightarrow> string"
  Now :: nat
  DefaultStorageSize :: string
  DefaultLabelKey :: string
  DefaultLabelValue :: string
  DefaultServicePortName :: string
  DefaultContainerName :: string
  MessageDeploymentPending :: string
  MessageDeploymentReady :: string
  MessageHealthCheckFailed :: string
  MessageHealthCheckPassed :: string
  MessageStorageReady :: string
  MessageServiceReady :: string

text \<open>
  The reconciler.  \<^verbatim>\<open>ClusterInfo\<close> is taken to be non-nil (a nil one would make
  \<^verbatim>\<open>updateDistributionConfig\<close> dereference nil); its \<^verbatim>\<open>DistributionImages\<close> is the
  name-to-image map.
\<close>

record reconciler =
  EnableNetworkPolicy :: bool
  DistributionImages :: "string \<rightharpoonup> string"

record Result =
  RequeueAfter :: nat
  \<comment> \<open>in nanoseconds, as \<^verbatim>\<open>time.Duration\<close>\<close>

definition Second :: nat where
  "Second = 1000000000"

section \<open>Client calls\<close>

text \<open>\<^verbatim>\<open>r.Get\<close>: the injected failure, else not-found for an absent key, else the object.\<close>

definition Get :: "env \<Rightarrow> site \<Rightarrow> (key \<rightharpoonup> 'a) \<Rightarrow> key \<Rightarrow> error + 'a" where
  "Get e s m k =
     (case fault e s of
        Some msg \<Rightarrow> Inl (Err msg)
      | None \<Rightarrow> (case m k of None \<Rightarrow> Inl NotFound | Some x \<Rightarrow> Inr x))"

definition logCall :: "verb \<Rightarrow> kind \<Rightarrow> key \<Rightarrow> cluster \<Rightarrow> cluster" where
  "logCall v kd k c = c\<lparr>calls := calls c @ [(v, kd, k)]\<rparr>"

text \<open>\<^verbatim>\<open>r.Create\<close> of a storage claim.\<close>

definition CreatePVC :: "env \<Rightarrow> PersistentVolumeClaim \<Rightarrow> cluster \<Rightarrow> error option \<times> cluster" where
  "CreatePVC e p c =
     (let k = (pvc_Namespace p, pvc_Name p); c1 = logCall Create KindPVC k c in
      case fault e SitePVCCreate of
        Some msg \<Rightarrow> (Some (Err msg), c1)
      | None \<Rightarrow>
          (case pvcs c1 k of
             Some old \<Rightarrow> (Some AlreadyExists, c1)
           | None \<Rightarrow> (None, c1\<lparr>pvcs := (pvcs c1)(k \<mapsto> p)\<rparr>)))"

text \<open>
  \<^verbatim>\<open>r.Status().Update\<close>: writes the status of the instance under its key; the spec
  stored in the cluster is not touched by a status write.
\<close>

definition StatusUpdate :: "env \<Rightarrow> LlamaStackDistribution \<Rightarrow> cluster \<Rightarrow> error option \<times> cluster" where
  "StatusUpdate e inst c =
     (let k = (lsd_Namespace inst, lsd_Name inst); c1 = logCall Update KindStatus k c in
      case fault e SiteStatusUpdate of
        Some msg \<Rightarrow> (Some (Err msg), c1)
      | None \<Rightarrow>
          (case lsds c1 k of
             None \<Rightarrow> (Some NotFound, c1)
           | Some old \<Rightarrow> (None, c1\<lparr>lsds := (lsds c1)(k \<mapsto> old\<lparr>lsd_Status := lsd_Status inst\<rparr>)\<rparr>)))"

section \<open>External collaborators of the synchronizer\<close>

text \<open>
  Modelled from the spec: \<^verbatim>\<open>instance.HasPorts()\<close>, a method declared with the resource
  type.  The spec has the endpoint "only constructed if the spec declares one or more
  ports".
\<close>

definition HasPorts :: "LlamaStackDistribution \<Rightarrow> bool" where
  "HasPorts inst = (srv_Ports (spec_Server (lsd_Spec inst)) \<noteq> [])"

text \<open>
  Modelled from the spec: \<^verbatim>\<open>deploy.GetServicePort\<close>.  The spec has "otherwise a single
  implicit default port is used for addressing"; the controller file's comment gives
  the default, 8321.
\<close>

definition GetServicePort :: "LlamaStackDistribution \<Rightarrow> int" where
  "GetServicePort inst =
     (case srv_Ports (spec_Server (lsd_Spec inst)) of [] \<Rightarrow> 8321 | p # ps \<Rightarrow> p)"

text \<open>
  Modelled from the spec: \<^verbatim>\<open>deploy.GetServiceName\<close>.  The spec has the children named
  deterministically from the parent; the controller file reads the service for the
  status under the name \<^verbatim>\<open>instance.Name + "-service"\<close>.
\<close>

definition GetServiceName :: "LlamaStackDistribution \<Rightarrow> string" where
  "GetServiceName inst = lsd_Name inst @ ''-service''"

text \<open>
  Modelled from the spec: \<^verbatim>\<open>validateDistribution\<close>, a method of the reconciler defined
  in another file.  The spec has: "validate the distribution reference (must resolve
  to exactly one of: a named known distribution, or an explicit image; mutually
  exclusive; fail if neither resolves)".
\<close>

definition validateDistribution :: "reconciler \<Rightarrow> LlamaStackDistribution \<Rightarrow> error option" where
  "validateDistribution r inst =
     (let d = srv_Distribution (spec_Server (lsd_Spec inst)) in
      if dist_Name d \<noteq> [] \<and> dist_Image d \<noteq> [] then
        Some (Err ''only one of distribution.name and distribution.image may be set'')
      else if dist_Name d \<noteq> [] then
        (case DistributionImages r (dist_Name d) of
           None \<Rightarrow> Some (Err (''distribution not found: '' @ dist_Name d))
         | Some img \<Rightarrow> None)
      else if dist_Image d \<noteq> [] then None
      else Some (Err ''one of distribution.name and distribution.image must be set''))"

text \<open>
  Modelled from the spec: \<^verbatim>\<open>resolveImage\<close>, a method of the reconciler defined in
  another file.  The spec has: "Resolve the image (lookup by name in an external
  distribution-to-image map, or pass through if an explicit image was given; fail if
  the name is unknown)".
\<close>

definition resolveImage :: "reconciler \<Rightarrow> DistributionType \<Rightarrow> error + string" where
  "resolveImage r d =
     (if dist_Name d \<noteq> [] then
        (case DistributionImages r (dist_Name d) of
           None \<Rightarrow> Inl (Err (''distribution not found: '' @ dist_Name d))
         | Some img \<Rightarrow> Inr img)
      else if dist_Image d \<noteq> [] then Inr (dist_Image d)
      else Inl (Err ''one of distribution.name and distribution.image must be set''))"

text \<open>
  Modelled from the spec: \<^verbatim>\<open>buildContainerSpec\<close>, in another file of the package; of
  the container the model keeps the resolved image (see the pod template above).
\<close>

definition buildContainerSpec :: "LlamaStackDistribution \<Rightarrow> string \<Rightarrow> string" where
  "buildContainerSpec inst resolvedImage = resolvedImage"

text \<open>
  Modelled from the spec: \<^verbatim>\<open>configurePodStorage\<close>, in another file of the package; the
  pod mounts the claim of the deterministic name when storage is requested.
\<close>

definition configurePodStorage :: "LlamaStackDistribution \<Rightarrow> string \<Rightarrow> PodSpec" where
  "configurePodStorage inst container =
     \<lparr>pod_Image = container,
      pod_ClaimName =
        (case srv_Storage (spec_Server (lsd_Spec inst)) of
           None \<Rightarrow> None
         | Some st \<Rightarrow> Some (lsd_Name inst @ ''-pvc'')),
      pod_ServiceAccountName = []\<rparr>"

text \<open>
  \<^verbatim>\<open>ctrl.SetControllerReference\<close> of the controller runtime: records the parent as the
  owner of the child, or fails.
\<close>

definition SetControllerReference :: "env \<Rightarrow> LlamaStackDistribution \<Rightarrow> error + key" where
  "SetControllerReference e inst =
     (case fault e SiteSetControllerReference of
        Some msg \<Rightarrow> Inl (Err msg)
      | None \<Rightarrow> Inr (lsd_Namespace inst, lsd_Name inst))"

text \<open>
  Modelled from the spec: \<^verbatim>\<open>deploy.ApplyDeployment\<close>.  The spec has each apply operation
  take the owner and the desired resource and perform an "idempotent
  create-or-update/delete against the cluster resource store, returning success or a
  wrapped error" (create-if-absent, update-if-changed).  What the cluster itself
  maintains of a workload, its ready replicas, is kept by an update.
\<close>

definition ApplyDeployment ::
  "env \<Rightarrow> LlamaStackDistribution \<Rightarrow> Deployment \<Rightarrow> cluster \<Rightarrow> error option \<times> cluster" where
  "ApplyDeployment e inst d c =
     (let k = (dep_Namespace d, dep_Name d) in
      case fault e SiteDeployment of
        Some msg \<Rightarrow> (Some (Wrapped ''failed to apply deployment'' (Err msg)), c)
      | None \<Rightarrow>
          (case deployments c k of
             None \<Rightarrow>
               (None, (logCall Create KindDeployment k c)
                  \<lparr>deployments :=
                     (deployments c)(k \<mapsto> d\<lparr>dep_Owner := Some (lsd_Namespace inst, lsd_Name inst)\<rparr>)\<rparr>)
           | Some old \<Rightarrow>
               (let d1 = d\<lparr>dep_Owner := Some (lsd_Namespace inst, lsd_Name inst),
                           dep_ReadyReplicas := dep_ReadyReplicas old\<rparr> in
                if d1 = old then (None, c)
                else (None, (logCall Update KindDeployment k c)
                        \<lparr>deployments := (deployments c)(k \<mapsto> d1)\<rparr>))))"

text \<open>
  Modelled from the spec: \<^verbatim>\<open>deploy.ApplyService\<close>, the same idempotent apply for the
  endpoint.
\<close>

definition ApplyService ::
  "env \<Rightarrow> LlamaStackDistribution \<Rightarrow> Service \<Rightarrow> cluster \<Rightarrow> error option \<times> cluster" where
  "ApplyService e inst s c =
     (let k = (svc_Namespace s, svc_Name s);
          s1 = s\<lparr>svc_Owner := Some (lsd_Namespace inst, lsd_Name inst)\<rparr> in
      case fault e SiteService of
        Some msg \<Rightarrow> (Some (Wrapped ''failed to apply service'' (Err msg)), c)
      | None \<Rightarrow>
          (case services c k of
             None \<Rightarrow>
               (None, (logCall Create KindService k c)\<lparr>services := (services c)(k \<mapsto> s1)\<rparr>)
           | Some old \<Rightarrow>
               (if s1 = old then (None, c)
                else (None, (logCall Update KindService k c)
                        \<lparr>services := (services c)(k \<mapsto> s1)\<rparr>))))"

text \<open>
  Modelled from the spec: \<^verbatim>\<open>deploy.ApplyNetworkPolicy\<close>, the same idempotent apply for
  the ingress policy.
\<close>

definition ApplyNetworkPolicy ::
  "env \<Rightarrow> LlamaStackDistribution \<Rightarrow> NetworkPolicy \<Rightarrow> cluster \<Rightarrow> error option \<times> cluster" where
  "ApplyNetworkPolicy e inst np c =
     (let k = (np_Namespace np, np_Name np);
          np1 = np\<lparr>np_Owner := Some (lsd_Namespace inst, lsd_Name inst)\<rparr> in
      case fault e SiteNetworkPolicy of
        Some msg \<Rightarrow> (Some (Wrapped ''failed to apply network policy'' (Err msg)), c)
      | None \<Rightarrow>
          (case networkPolicies c k of
             None \<Rightarrow>
               (None, (logCall Create KindNetworkPolicy k c)
                  \<lparr>networkPolicies := (networkPolicies c)(k \<mapsto> np1)\<rparr>)
           | Some old \<Rightarrow>
               (if np1 = old then (None, c)
                else (None, (logCall Update KindNetworkPolicy k c)
                        \<lparr>networkPolicies := (networkPolicies c)(k \<mapsto> np1)\<rparr>))))"

text \<open>
  Modelled from the spec: \<^verbatim>\<open>deploy.HandleDisabledNetworkPolicy\<close>.  The spec has: "if a
  policy resource of the deterministic name exists, delete it; otherwise no-op.  Must
  tolerate not-found as success."
\<close>

definition HandleDisabledNetworkPolicy ::
  "env \<Rightarrow> NetworkPolicy \<Rightarrow> cluster \<Rightarrow> error option \<times> cluster" where
  "HandleDisabledNetworkPolicy e np c =
     (let k = (np_Namespace np, np_Name np) in
      case fault e SiteNetworkPolicy of
        Some msg \<Rightarrow> (Some (Wrapped ''failed to delete network policy'' (Err msg)), c)
      | None \<Rightarrow>
          (case networkPolicies c k of
             None \<Rightarrow> (None, c)
           | Some old \<Rightarrow>
               (None, (logCall Delete KindNetworkPolicy k c)
                  \<lparr>networkPolicies := (networkPolicies c)(k := None)\<rparr>)))"

section \<open>Resource synchronizer\<close>

text \<open>
  The label pair written as a map literal in the workload, the endpoint and the
  ingress policy: a static key and value, and the instance's name.
\<close>

definition instanceLabels :: "env \<Rightarrow> LlamaStackDistribution \<Rightarrow> (string \<times> string) list" where
  "instanceLabels e inst =
     AList.update ''app.kubernetes.io/instance'' (lsd_Name inst)
       [(DefaultLabelKey e, DefaultLabelValue e)]"

text \<open>
  \<^verbatim>\<open>reconcilePVC\<close>.  Its caller has checked that storage is configured; on a nil
  storage the read of the size would dereference nil.
\<close>

definition reconcilePVC ::
  "env \<Rightarrow> LlamaStackDistribution \<Rightarrow> cluster \<Rightarrow> error option \<times> cluster" where
  "reconcilePVC e inst c =
     (case srv_Storage (spec_Server (lsd_Spec inst)) of
        None \<Rightarrow> (Some (Panic ''nil pointer dereference''), c)
      | Some st \<Rightarrow>
          (let size = (case storage_Size st of None \<Rightarrow> DefaultStorageSize e | Some q \<Rightarrow> q);
               pvc = \<lparr>pvc_Name = lsd_Name inst @ ''-pvc'',
                      pvc_Namespace = lsd_Namespace inst,
                      pvc_Owner = None,
                      pvc_AccessModes = [''ReadWriteOnce''],
                      pvc_StorageRequest = size,
                      pvc_Phase = []\<rparr>
           in case SetControllerReference e inst of
                Inl err \<Rightarrow> (Some (Wrapped ''failed to set controller reference'' err), c)
              | Inr owner \<Rightarrow>
                  (let pvc1 = pvc\<lparr>pvc_Owner := Some owner\<rparr> in
                   case Get e SitePVCGet (pvcs c) (pvc_Namespace pvc1, pvc_Name pvc1) of
                     Inl err \<Rightarrow>
                       (if IsNotFound err then CreatePVC e pvc1 c
                        else (Some (Wrapped ''failed to fetch PVC'' err), c))
                   | Inr found \<Rightarrow> (None, c))))"

definition reconcileDeployment ::
  "reconciler \<Rightarrow> env \<Rightarrow> LlamaStackDistribution \<Rightarrow> cluster \<Rightarrow> error option \<times> cluster" where
  "reconcileDeployment r e inst c =
     (case validateDistribution r inst of
        Some err \<Rightarrow> (Some err, c)
      | None \<Rightarrow>
          (case resolveImage r (srv_Distribution (spec_Server (lsd_Spec inst))) of
             Inl err \<Rightarrow> (Some err, c)
           | Inr resolvedImage \<Rightarrow>
               (let container = buildContainerSpec inst resolvedImage;
                    podSpec = configurePodStorage inst container;
                    podSpec1 =
                      (case srv_PodOverrides (spec_Server (lsd_Spec inst)) of
                         None \<Rightarrow> podSpec
                       | Some po \<Rightarrow>
                           (if po_ServiceAccountName po \<noteq> []
                            then podSpec\<lparr>pod_ServiceAccountName := po_ServiceAccountName po\<rparr>
                            else podSpec));
                    deployment =
                      \<lparr>dep_Name = lsd_Name inst,
                       dep_Namespace = lsd_Namespace inst,
                       dep_Owner = None,
                       dep_Replicas = spec_Replicas (lsd_Spec inst),
                       dep_Selector = instanceLabels e inst,
                       dep_TemplateLabels = instanceLabels e inst,
                       dep_PodSpec = podSpec1,
                       dep_ReadyReplicas = 0\<rparr>
                in ApplyDeployment e inst deployment c)))"

definition reconcileService ::
  "env \<Rightarrow> LlamaStackDistribution \<Rightarrow> cluster \<Rightarrow> error option \<times> cluster" where
  "reconcileService e inst c =
     (let port = GetServicePort inst;
          service =
            \<lparr>svc_Name = GetServiceName inst,
             svc_Namespace = lsd_Namespace inst,
             svc_Owner = None,
             svc_Selector = instanceLabels e inst,
             svc_Ports = [(DefaultServicePortName e, port, port)],
             svc_Type = ''ClusterIP''\<rparr>
      in ApplyService e inst service c)"

definition reconcileNetworkPolicy ::
  "reconciler \<Rightarrow> env \<Rightarrow> LlamaStackDistribution \<Rightarrow> cluster \<Rightarrow> error option \<times> cluster" where
  "reconcileNetworkPolicy r e inst c =
     (let networkPolicy =
            \<lparr>np_Name = lsd_Name inst @ ''-network-policy'',
             np_Namespace = lsd_Namespace inst,
             np_Owner = None,
             np_PodSelector = [],
             np_PolicyTypes = [],
             np_Ingress = []\<rparr>
      in if \<not> EnableNetworkPolicy r then HandleDisabledNetworkPolicy e networkPolicy c
         else
           (let port = GetServicePort inst in
            case GetOperatorNamespace e of
              Inl err \<Rightarrow> (Some (Wrapped ''failed to get operator namespace'' err), c)
            | Inr operatorNamespace \<Rightarrow>
                ApplyNetworkPolicy e inst
                  (networkPolicy
                     \<lparr>np_PodSelector := instanceLabels e inst,
                      np_PolicyTypes := [''Ingress''],
                      np_Ingress :=
                        [\<lparr>rule_From =
                            [\<lparr>peer_PodSelector =
                                Some [(''app.kubernetes.io/part-of'', DefaultContainerName e)],
                              peer_NamespaceSelector = Some []\<rparr>],
                          rule_Ports = [(''TCP'', port)]\<rparr>,
                         \<lparr>rule_From =
                            [\<lparr>peer_PodSelector = Some [],
                              peer_NamespaceSelector =
                                Some [(''kubernetes.io/metadata.name'', operatorNamespace)]\<rparr>],
                          rule_Ports = [(''TCP'', port)]\<rparr>]\<rparr>)
                  c))"

text \<open>\<^verbatim>\<open>reconcileResources\<close>: storage, ingress policy, workload, endpoint, in this order.\<close>

definition reconcileResources ::
  "reconciler \<Rightarrow> env \<Rightarrow> LlamaStackDistribution \<Rightarrow> cluster \<Rightarrow> error option \<times> cluster" where
  "reconcileResources r e inst c =
     (case (if srv_Storage (spec_Server (lsd_Spec inst)) \<noteq> None
            then reconcilePVC e inst c else (None, c)) of
        (Some err, c1) \<Rightarrow> (Some (Wrapped ''failed to reconcile PVC'' err), c1)
      | (None, c1) \<Rightarrow>
          (case reconcileNetworkPolicy r e inst c1 of
             (Some err, c2) \<Rightarrow> (Some (Wrapped ''failed to reconcile NetworkPolicy'' err), c2)
           | (None, c2) \<Rightarrow>
               (case reconcileDeployment r e inst c2 of
                  (Some err, c3) \<Rightarrow> (Some (Wrapped ''failed to reconcile Deployment'' err), c3)
                | (None, c3) \<Rightarrow>
                    (if HasPorts inst then
                       (case reconcileService e inst c3 of
                          (Some err, c4) \<Rightarrow> (Some (Wrapped ''failed to reconcile service'' err), c4)
                        | (None, c4) \<Rightarrow> (None, c4))
                     else (None, c3)))))"

section \<open>Network probe\<close>

definition getServerURL :: "LlamaStackDistribution \<Rightarrow> string \<Rightarrow> string" where
  "getServerURL inst path =
     ''http://'' @ GetServiceName inst @ ''.'' @ lsd_Namespace inst
       @ ''.svc.cluster.local:'' @ fmtInt (GetServicePort inst) @ path"

text \<open>\<^verbatim>\<open>client.Do\<close>: a request that could be built is sent, and its URL logged.\<close>

definition httpGet :: "env \<Rightarrow> string \<Rightarrow> cluster \<Rightarrow> http_outcome \<times> cluster" where
  "httpGet e u c =
     (case http e u of
        NewRequestError err \<Rightarrow> (NewRequestError err, c)
      | out \<Rightarrow> (out, c\<lparr>requests := requests c @ [u]\<rparr>))"

definition checkHealth ::
  "env \<Rightarrow> LlamaStackDistribution \<Rightarrow> cluster \<Rightarrow> (error + bool) \<times> cluster" where
  "checkHealth e inst c =
     (case httpGet e (getServerURL inst ''/v1/health'') c of
        (NewRequestError err, c1) \<Rightarrow>
          (Inl (Wrapped ''failed to create health check request'' err), c1)
      | (DoError err, c1) \<Rightarrow> (Inl (Wrapped ''failed to make health check request'' err), c1)
      | (Response code body, c1) \<Rightarrow> (Inr (code = 200), c1))"

definition getProviderInfo ::
  "env \<Rightarrow> LlamaStackDistribution \<Rightarrow> cluster \<Rightarrow> (error + ProviderInfo list) \<times> cluster" where
  "getProviderInfo e inst c =
     (case httpGet e (getServerURL inst ''/v1/providers'') c of
        (NewRequestError err, c1) \<Rightarrow> (Inl (Wrapped ''failed to create providers request'' err), c1)
      | (DoError err, c1) \<Rightarrow> (Inl (Wrapped ''failed to make providers request'' err), c1)
      | (Response code body, c1) \<Rightarrow>
          (if code \<noteq> 200 then
             (Inl (Err (''failed to query providers endpoint: returned status code ''
                        @ fmtInt code)), c1)
           else
             (case body of
                Inl err \<Rightarrow> (Inl (Wrapped ''failed to read providers response'' err), c1)
              | Inr b \<Rightarrow>
                  (case json_Unmarshal e b of
                     Inl err \<Rightarrow> (Inl (Wrapped ''failed to unmarshal providers response'' err), c1)
                   | Inr data \<Rightarrow> (Inr data, c1)))))"

section \<open>Status evaluator\<close>

text \<open>
  Modelled from the spec: the common part of the four condition setters, which are
  defined in another file.  The spec has the status hold "a set of named conditions,
  each holding a boolean readiness flag, a short reason, and a human-readable
  message, keyed by aspect name"; a setter replaces the condition of its aspect.
\<close>

definition SetCondition ::
  "ConditionType \<Rightarrow> LlamaStackDistributionStatus \<Rightarrow> bool \<Rightarrow> string \<Rightarrow> LlamaStackDistributionStatus" where
  "SetCondition t st ready message =
     st\<lparr>st_Conditions := (st_Conditions st)(t \<mapsto> \<lparr>cond_Ready = ready, cond_Message = message\<rparr>)\<rparr>"

text \<open>Modelled from the spec: \<^verbatim>\<open>SetDeploymentReadyCondition\<close>, the workload-ready aspect.\<close>

definition SetDeploymentReadyCondition ::
  "LlamaStackDistributionStatus \<Rightarrow> bool \<Rightarrow> string \<Rightarrow> LlamaStackDistributionStatus" where
  "SetDeploymentReadyCondition = SetCondition ConditionTypeDeploymentReady"

text \<open>Modelled from the spec: \<^verbatim>\<open>SetHealthCheckCondition\<close>, the health-ready aspect.\<close>

definition SetHealthCheckCondition ::
  "LlamaStackDistributionStatus \<Rightarrow> bool \<Rightarrow> string \<Rightarrow> LlamaStackDistributionStatus" where
  "SetHealthCheckCondition = SetCondition ConditionTypeHealthCheck"

text \<open>Modelled from the spec: \<^verbatim>\<open>SetStorageReadyCondition\<close>, the storage-ready aspect.\<close>

definition SetStorageReadyCondition ::
  "LlamaStackDistributionStatus \<Rightarrow> bool \<Rightarrow> string \<Rightarrow> LlamaStackDistributionStatus" where
  "SetStorageReadyCondition = SetCondition ConditionTypeStorageReady"

text \<open>Modelled from the spec: \<^verbatim>\<open>SetServiceReadyCondition\<close>, the endpoint-ready aspect.\<close>

definition SetServiceReadyCondition ::
  "LlamaStackDistributionStatus \<Rightarrow> bool \<Rightarrow> string \<Rightarrow> LlamaStackDistributionStatus" where
  "SetServiceReadyCondition = SetCondition ConditionTypeServiceReady"

text \<open>The assignments to \<^verbatim>\<open>instance.Status\<close> fields that the evaluator makes in place.\<close>

definition setPhase :: "Phase \<Rightarrow> LlamaStackDistributionStatus \<Rightarrow> LlamaStackDistributionStatus" where
  "setPhase p st = st\<lparr>st_Phase := p\<rparr>"

definition setProviders ::
  "ProviderInfo list \<Rightarrow> LlamaStackDistributionStatus \<Rightarrow> LlamaStackDistributionStatus" where
  "setProviders ps st =
     st\<lparr>st_DistributionConfig := (st_DistributionConfig st)\<lparr>dc_Providers := ps\<rparr>\<rparr>"

text \<open>The zero value \<^verbatim>\<open>&appsv1.Deployment{}\<close> that a failed \<^verbatim>\<open>Get\<close> leaves untouched.\<close>

definition zeroDeployment :: Deployment where
  "zeroDeployment =
     \<lparr>dep_Name = [], dep_Namespace = [], dep_Owner = None, dep_Replicas = 0,
      dep_Selector = [], dep_TemplateLabels = [],
      dep_PodSpec = \<lparr>pod_Image = [], pod_ClaimName = None, pod_ServiceAccountName = []\<rparr>,
      dep_ReadyReplicas = 0\<rparr>"

definition mapStatus ::
  "(LlamaStackDistributionStatus \<Rightarrow> LlamaStackDistributionStatus) \<Rightarrow>
   LlamaStackDistribution \<Rightarrow> LlamaStackDistribution" where
  "mapStatus f inst = inst\<lparr>lsd_Status := f (lsd_Status inst)\<rparr>"

text \<open>
  \<^verbatim>\<open>updateDeploymentStatus\<close>: the switch on the workload, its cases in the source's
  order, then the copy of the ready replicas.
\<close>

definition updateDeploymentStatus ::
  "env \<Rightarrow> cluster \<Rightarrow> LlamaStackDistribution \<Rightarrow> error + (bool \<times> LlamaStackDistribution)" where
  "updateDeploymentStatus e c inst =
     (let got = Get e SiteStatusDeploymentGet (deployments c) (lsd_Namespace inst, lsd_Name inst);
          deploymentErr = (case got of Inl err \<Rightarrow> Some err | Inr d \<Rightarrow> None);
          deployment = (case got of Inl err \<Rightarrow> zeroDeployment | Inr d \<Rightarrow> d);
          ready = dep_ReadyReplicas deployment;
          replicas = spec_Replicas (lsd_Spec inst)
      in case (case deploymentErr of
                 Some err \<Rightarrow> if \<not> IsNotFound err then Some err else None
               | None \<Rightarrow> None) of
           Some err \<Rightarrow> Inl (Wrapped ''failed to fetch deployment for status'' err)
         | None \<Rightarrow>
             (let (deploymentReady, inst1) =
                (if deploymentErr \<noteq> None then
                   (False,
                    mapStatus (\<lambda>st. SetDeploymentReadyCondition
                        (setPhase LlamaStackDistributionPhasePending st)
                        False (MessageDeploymentPending e)) inst)
                 else if ready = 0 then
                   (False,
                    mapStatus (\<lambda>st. SetDeploymentReadyCondition
                        (setPhase LlamaStackDistributionPhaseInitializing st)
                        False (MessageDeploymentPending e)) inst)
                 else if ready < replicas then
                   (False,
                    mapStatus (\<lambda>st. SetDeploymentReadyCondition
                        (setPhase LlamaStackDistributionPhaseInitializing st)
                        False
                        (''Deployment is scaling: '' @ fmtInt ready
                           @ ''/'' @ fmtInt replicas @ '' replicas ready'')) inst)
                 else if ready > replicas then
                   (False,
                    mapStatus (\<lambda>st. SetDeploymentReadyCondition
                        (setPhase LlamaStackDistributionPhaseInitializing st)
                        False
                        (''Deployment is scaling down: '' @ fmtInt ready
                           @ ''/'' @ fmtInt replicas @ '' replicas ready'')) inst)
                 else
                   (True,
                    mapStatus (\<lambda>st.
                        (let st1 = SetDeploymentReadyCondition
                                     (setPhase LlamaStackDistributionPhaseReady st)
                                     True (MessageDeploymentReady e)
                         in if ver_LlamaStackVersion (st_Version st1) = []
                            then st1\<lparr>st_Version := (st_Version st1)
                                   \<lparr>ver_LlamaStackVersion := Getenv e ''LLAMA_STACK_VERSION''\<rparr>\<rparr>
                            else st1)) inst))
              in Inr (deploymentReady,
                      mapStatus (\<lambda>st. st\<lparr>st_AvailableReplicas := ready\<rparr>) inst1)))"

definition updateStorageStatus ::
  "env \<Rightarrow> cluster \<Rightarrow> LlamaStackDistribution \<Rightarrow> LlamaStackDistribution" where
  "updateStorageStatus e c inst =
     (if srv_Storage (spec_Server (lsd_Spec inst)) = None then inst
      else
        (case Get e SiteStatusPVCGet (pvcs c) (lsd_Namespace inst, lsd_Name inst @ ''-pvc'') of
           Inl err \<Rightarrow>
             mapStatus (\<lambda>st. SetStorageReadyCondition st False
                                (''Failed to get PVC: '' @ Error err)) inst
         | Inr pvc \<Rightarrow>
             (let ready = (pvc_Phase pvc = ''Bound'');
                  message = (if ready then MessageStorageReady e
                             else ''PVC is not bound: '' @ pvc_Phase pvc)
              in mapStatus (\<lambda>st. SetStorageReadyCondition st ready message) inst)))"

definition updateServiceStatus ::
  "env \<Rightarrow> cluster \<Rightarrow> LlamaStackDistribution \<Rightarrow> LlamaStackDistribution" where
  "updateServiceStatus e c inst =
     (if \<not> HasPorts inst then inst
      else
        (case Get e SiteStatusServiceGet (services c)
                (lsd_Namespace inst, lsd_Name inst @ ''-service'') of
           Inl err \<Rightarrow>
             mapStatus (\<lambda>st. SetServiceReadyCondition st False
                                (''Failed to get Service: '' @ Error err)) inst
         | Inr service \<Rightarrow>
             mapStatus (\<lambda>st. SetServiceReadyCondition st True (MessageServiceReady e)) inst))"

definition updateDistributionConfig ::
  "reconciler \<Rightarrow> LlamaStackDistribution \<Rightarrow> LlamaStackDistribution" where
  "updateDistributionConfig r inst =
     (let d = srv_Distribution (spec_Server (lsd_Spec inst));
          activeDistribution =
            (if dist_Name d \<noteq> [] then dist_Name d
             else if dist_Image d \<noteq> [] then ''custom''
             else [])
      in mapStatus (\<lambda>st. st\<lparr>st_DistributionConfig := (st_DistributionConfig st)
                \<lparr>dc_AvailableDistributions := DistributionImages r,
                 dc_ActiveDistribution := activeDistribution\<rparr>\<rparr>) inst)"

text \<open>
  \<^verbatim>\<open>performHealthChecks\<close>: the health probe decides the phase and the health
  condition; the provider listing follows whatever the probe gave.
\<close>

definition performHealthChecks ::
  "env \<Rightarrow> LlamaStackDistribution \<Rightarrow> cluster \<Rightarrow> LlamaStackDistribution \<times> cluster" where
  "performHealthChecks e inst c =
     (let (health, c1) = checkHealth e inst c;
          inst1 =
            (case health of
               Inl err \<Rightarrow>
                 mapStatus (\<lambda>st. SetHealthCheckCondition
                     (setPhase LlamaStackDistributionPhaseInitializing st)
                     False (''Health check failed: '' @ Error err)) inst
             | Inr healthy \<Rightarrow>
                 (if \<not> healthy then
                    mapStatus (\<lambda>st. SetHealthCheckCondition
                        (setPhase LlamaStackDistributionPhaseFailed st)
                        False (MessageHealthCheckFailed e)) inst
                  else
                    mapStatus (\<lambda>st. SetHealthCheckCondition
                        (setPhase LlamaStackDistributionPhaseReady st)
                        True (MessageHealthCheckPassed e)) inst));
          (listed, c2) = getProviderInfo e inst1 c1
      in case listed of
           Inl err \<Rightarrow> (mapStatus (setProviders []) inst1, c2)
         | Inr providers \<Rightarrow> (mapStatus (setProviders providers) inst1, c2))"

text \<open>
  \<^verbatim>\<open>updateStatus\<close>.  The instance is the caller's object, changed in place, so it is
  returned on every path, with the error if there is one.
\<close>

definition updateStatus ::
  "reconciler \<Rightarrow> env \<Rightarrow> LlamaStackDistribution \<Rightarrow> error option \<Rightarrow> cluster \<Rightarrow>
   error option \<times> LlamaStackDistribution \<times> cluster" where
  "updateStatus r e inst reconcileErr c =
     (let inst0 =
            (if ver_OperatorVersion (st_Version (lsd_Status inst)) = []
             then mapStatus (\<lambda>st. st\<lparr>st_Version := (st_Version st)
                    \<lparr>ver_OperatorVersion := Getenv e ''OPERATOR_VERSION''\<rparr>\<rparr>) inst
             else inst);
          checked =
            (case reconcileErr of
               Some rerr \<Rightarrow>
                 Inr (mapStatus (\<lambda>st. SetDeploymentReadyCondition
                          (setPhase LlamaStackDistributionPhaseFailed st)
                          False (''Resource reconciliation failed: '' @ Error rerr)) inst0, c)
             | None \<Rightarrow>
                 (case updateDeploymentStatus e c inst0 of
                    Inl err \<Rightarrow> Inl err
                  | Inr (deploymentReady, inst1) \<Rightarrow>
                      (let inst2 = updateStorageStatus e c inst1;
                           inst3 = updateServiceStatus e c inst2;
                           inst4 = updateDistributionConfig r inst3
                       in if deploymentReady then Inr (performHealthChecks e inst4 c)
                          else Inr (mapStatus (\<lambda>st. setProviders []
                                       (SetHealthCheckCondition st False ''Deployment not ready''))
                                      inst4, c))))
      in case checked of
           Inl err \<Rightarrow> (Some err, inst0, c)
         | Inr (inst5, c5) \<Rightarrow>
             (let inst6 = mapStatus (\<lambda>st. st\<lparr>st_Version := (st_Version st)
                             \<lparr>ver_LastUpdated := Now e\<rparr>\<rparr>) inst5
              in case StatusUpdate e inst6 c5 of
                   (Some err, c6) \<Rightarrow> (Some (Wrapped ''failed to update status'' err), inst6, c6)
                 | (None, c6) \<Rightarrow> (None, inst6, c6)))"

section \<open>Reconciliation orchestrator\<close>

definition fetchInstance ::
  "env \<Rightarrow> key \<Rightarrow> cluster \<Rightarrow> error + LlamaStackDistribution option" where
  "fetchInstance e namespacedName c =
     (case Get e SiteFetchInstance (lsds c) namespacedName of
        Inl err \<Rightarrow>
          (if IsNotFound err then Inr None
           else Inl (Wrapped ''failed to fetch LlamaStackDistribution'' err))
      | Inr instance \<Rightarrow> Inr (Some instance))"

definition emptyResult :: Result where
  "emptyResult = \<lparr>RequeueAfter = 0\<rparr>"

text \<open>
  \<^verbatim>\<open>Reconcile\<close>: the result and error handed back to the framework, the instance
  as the pass leaves it in memory (none if it was not fetched), and the cluster.
\<close>

definition Reconcile ::
  "reconciler \<Rightarrow> env \<Rightarrow> key \<Rightarrow> cluster \<Rightarrow>
   (Result \<times> error option) \<times> LlamaStackDistribution option \<times> cluster" where
  "Reconcile r e req c =
     (case fetchInstance e req c of
        Inl err \<Rightarrow> ((emptyResult, Some err), None, c)
      | Inr None \<Rightarrow> ((emptyResult, None), None, c)
      | Inr (Some instance) \<Rightarrow>
          (let (reconcileErr, c1) = reconcileResources r e instance c;
               (statusUpdateErr, instance1, c2) = updateStatus r e instance reconcileErr c1
           in case statusUpdateErr of
                Some serr \<Rightarrow>
                  (case reconcileErr of
                     Some rerr \<Rightarrow> ((emptyResult, Some rerr), Some instance1, c2)
                   | None \<Rightarrow> ((emptyResult, Some serr), Some instance1, c2))
              | None \<Rightarrow>
                  (case reconcileErr of
                     Some rerr \<Rightarrow> ((emptyResult, Some rerr), Some instance1, c2)
                   | None \<Rightarrow>
                       (if st_Phase (lsd_Status instance1) = LlamaStackDistributionPhaseInitializing
                        then ((\<lparr>RequeueAfter = 10 * Second\<rparr>, None), Some instance1, c2)
                        else ((emptyResult, None), Some instance1, c2)))))"

section \<open>Observations on a pass\<close>

text \<open>What the claims read off an instance: phase, conditions, providers, replicas.\<close>

definition phaseOf :: "LlamaStackDistribution \<Rightarrow> Phase" where
  "phaseOf inst = st_Phase (lsd_Status inst)"

definition conditionOf :: "ConditionType \<Rightarrow> LlamaStackDistribution \<Rightarrow> Condition option" where
  "conditionOf t inst = st_Conditions (lsd_Status inst) t"

definition providersOf :: "LlamaStackDistribution \<Rightarrow> ProviderInfo list" where
  "providersOf inst = dc_Providers (st_DistributionConfig (lsd_Status inst))"

definition availableOf :: "LlamaStackDistribution \<Rightarrow> int" where
  "availableOf inst = st_AvailableReplicas (lsd_Status inst)"

definition keyOf :: "LlamaStackDistribution \<Rightarrow> key" where
  "keyOf inst = (lsd_Namespace inst, lsd_Name inst)"

text \<open>What a step may touch: the kinds it writes, in the stores and in the call log.\<close>

definition onlyTouches :: "kind set \<Rightarrow> cluster \<Rightarrow> cluster \<Rightarrow> bool" where
  "onlyTouches K c c' \<longleftrightarrow>
     lsds c' = lsds c \<and> requests c' = requests c
     \<and> (KindPVC \<notin> K \<longrightarrow> pvcs c' = pvcs c)
     \<and> (KindDeployment \<notin> K \<longrightarrow> deployments c' = deployments c)
     \<and> (KindService \<notin> K \<longrightarrow> services c' = services c)
     \<and> (KindNetworkPolicy \<notin> K \<longrightarrow> networkPolicies c' = networkPolicies c)
     \<and> (\<exists>l. calls c' = calls c @ l \<and> (\<forall>x\<in>set l. fst (snd x) \<in> K))"

text \<open>
  The workload as a status evaluation finds it: ready when it exists and its ready
  replicas are the desired ones and not zero (the default case of the switch), and
  the ready replicas it shows (the zero value when it does not exist).
\<close>

definition workloadReady :: "cluster \<Rightarrow> LlamaStackDistribution \<Rightarrow> bool" where
  "workloadReady c inst =
     (case deployments c (keyOf inst) of
        None \<Rightarrow> False
      | Some d \<Rightarrow> dep_ReadyReplicas d = spec_Replicas (lsd_Spec inst) \<and> dep_ReadyReplicas d \<noteq> 0)"

definition observedReadyReplicas :: "cluster \<Rightarrow> LlamaStackDistribution \<Rightarrow> int" where
  "observedReadyReplicas c inst =
     (case deployments c (keyOf inst) of None \<Rightarrow> 0 | Some d \<Rightarrow> dep_ReadyReplicas d)"

text \<open>
  The instance as the status evaluation of a pass without synchronization error
  leaves it, and a cluster whose workload shows a given number of ready replicas.
\<close>

definition evaluated ::
  "reconciler \<Rightarrow> env \<Rightarrow> LlamaStackDistribution \<Rightarrow> cluster \<Rightarrow> LlamaStackDistribution" where
  "evaluated r e inst c = fst (snd (updateStatus r e inst None c))"

definition withReadyReplicas ::
  "int \<Rightarrow> Deployment \<Rightarrow> LlamaStackDistribution \<Rightarrow> cluster \<Rightarrow> cluster" where
  "withReadyReplicas n d inst c =
     c\<lparr>deployments := (deployments c)(keyOf inst \<mapsto> d\<lparr>dep_ReadyReplicas := n\<rparr>)\<rparr>"

section \<open>Example values\<close>

text \<open>
  An instance \<open>ns/a\<close> asking for three replicas of the distribution \<open>foo\<close>, a
  reconciler that knows that distribution, and a cluster holding the instance and its
  workload.
\<close>

definition exInstance :: LlamaStackDistribution where
  "exInstance =
     \<lparr>lsd_Name = ''a'', lsd_Namespace = ''ns'',
      lsd_Spec =
        \<lparr>spec_Replicas = 3,
         spec_Server =
           \<lparr>srv_Distribution = \<lparr>dist_Name = ''foo'', dist_Image = []\<rparr>,
            srv_Storage = None, srv_PodOverrides = None, srv_Ports = []\<rparr>\<rparr>,
      lsd_Status =
        \<lparr>st_Phase = PhaseUnset, st_Conditions = Map.empty, st_AvailableReplicas = 0,
         st_DistributionConfig =
           \<lparr>dc_ActiveDistribution = [], dc_AvailableDistributions = Map.empty,
            dc_Providers = []\<rparr>,
         st_Version =
           \<lparr>ver_OperatorVersion = [], ver_LlamaStackVersion = [], ver_LastUpdated = 0\<rparr>\<rparr>\<rparr>"

definition exReconciler :: reconciler where
  "exReconciler = \<lparr>EnableNetworkPolicy = False, DistributionImages = [''foo'' \<mapsto> ''img'']\<rparr>"

text \<open>
  The body of a provider listing with one descriptor, and the JSON decoder at the two
  bodies the examples receive from the providers endpoint: the empty object has no
  \<open>data\<close> field, which leaves the list empty, and the listing gives its descriptor.
  Another body is not sent by the examples; it is taken as malformed.
\<close>

definition quoted :: "string \<Rightarrow> string" where
  "quoted s = CHR 0x22 # s @ [CHR 0x22]"

definition exListingBody :: string where
  "exListingBody =
     ''{'' @ quoted ''data'' @ '':[{'' @ quoted ''name'' @ '':'' @ quoted ''p'' @ '',''
       @ quoted ''type'' @ '':'' @ quoted ''inline'' @ '',''
       @ quoted ''status'' @ '':'' @ quoted ''OK'' @ ''}]}''"

definition exDecode :: "string \<Rightarrow> error + ProviderInfo list" where
  "exDecode b =
     (if b = ''{}'' then Inr []
      else if b = exListingBody then Inr [ProviderInfo ''p'' ''inline'' ''OK'']
      else Inl (Err ''invalid JSON''))"

text \<open>
  The environment: nothing fails, the providers endpoint of the instance answers with
  the listing, and every other URL answers with status 200 and an empty object.
\<close>

definition exEnv :: env where
  "exEnv =
     \<lparr>fault = (\<lambda>s. None),
      http = (\<lambda>u. if u = getServerURL exInstance ''/v1/providers''
                   then Response 200 (Inr exListingBody) else Response 200 (Inr ''{}'')),
      json_Unmarshal = exDecode,
      GetOperatorNamespace = Inr ''ops'',
      Getenv = (\<lambda>v. ''v1''),
      Now = 7,
      DefaultStorageSize = ''10Gi'',
      DefaultLabelKey = ''app'',
      DefaultLabelValue = ''llama-stack'',
      DefaultServicePortName = ''http'',
      DefaultContainerName = ''llama-stack'',
      MessageDeploymentPending = ''Deployment is pending'',
      MessageDeploymentReady = ''Deployment is ready'',
      MessageHealthCheckFailed = ''Health check failed'',
      MessageHealthCheckPassed = ''Health check passed'',
      MessageStorageReady = ''Storage is ready'',
      MessageServiceReady = ''Service is ready''\<rparr>"

definition exDeployment :: "int \<Rightarrow> Deployment" where
  "exDeployment n =
     \<lparr>dep_Name = ''a'', dep_Namespace = ''ns'', dep_Owner = Some (''ns'', ''a''),
      dep_Replicas = 3,
      dep_Selector = [(''app'', ''llama-stack''), (''app.kubernetes.io/instance'', ''a'')],
      dep_TemplateLabels = [(''app'', ''llama-stack''), (''app.kubernetes.io/instance'', ''a'')],
      dep_PodSpec = \<lparr>pod_Image = ''img'', pod_ClaimName = None, pod_ServiceAccountName = []\<rparr>,
      dep_ReadyReplicas = n\<rparr>"

definition exCluster :: "LlamaStackDistribution \<Rightarrow> int \<Rightarrow> cluster" where
  "exCluster inst n =
     \<lparr>lsds = [(''ns'', ''a'') \<mapsto> inst],
      pvcs = Map.empty,
      deployments = [(''ns'', ''a'') \<mapsto> exDeployment n],
      services = Map.empty,
      networkPolicies = Map.empty,
      calls = [],
      requests = []\<rparr>"

text \<open>Environments in which some calls fail, or the health probe is not answered with 200.\<close>

definition exEnvFaults :: "(site \<times> string) list \<Rightarrow> env" where
  "exEnvFaults fs = exEnv\<lparr>fault := map_of fs\<rparr>"

definition exInstanceZero :: LlamaStackDistribution where
  "exInstanceZero = exInstance\<lparr>lsd_Spec := (lsd_Spec exInstance)\<lparr>spec_Replicas := 0\<rparr>\<rparr>"

definition exBothFail :: env where
  "exBothFail = exEnvFaults [(SiteDeployment, ''boom''), (SiteStatusUpdate, ''conflict'')]"

definition exWriteFails :: env where
  "exWriteFails = exEnvFaults [(SiteStatusUpdate, ''conflict'')]"

definition exSyncError :: error where
  "exSyncError =
     Wrapped ''failed to reconcile Deployment''
       (Wrapped ''failed to apply deployment'' (Err ''boom''))"

definition exReadFails :: env where
  "exReadFails = exEnvFaults [(SiteStatusDeploymentGet, ''timeout'')]"

definition exUnhealthy :: env where
  "exUnhealthy =
     exEnv\<lparr>http := (\<lambda>u. if u = getServerURL exInstance ''/v1/health''
                        then Response 503 (Inr []) else http exEnv u)\<rparr>"

definition exUnreachable :: env where
  "exUnreachable =
     exEnv\<lparr>http := (\<lambda>u. if u = getServerURL exInstance ''/v1/health''
                        then DoError (Err ''timeout'') else http exEnv u)\<rparr>"

definition exApplyFails :: env where
  "exApplyFails = exEnvFaults [(SiteDeployment, ''boom'')]"

text \<open>
  Two passes in a row over a workload with two ready replicas: in the first the status
  write fails, in the second the workload cannot be applied.
\<close>

definition exPass1 ::
  "(Result \<times> error option) \<times> LlamaStackDistribution option \<times> cluster" where
  "exPass1 = Reconcile exReconciler exWriteFails (''ns'', ''a'') (exCluster exInstance 2)"

definition exPass2 ::
  "(Result \<times> error option) \<times> LlamaStackDistribution option \<times> cluster" where
  "exPass2 = Reconcile exReconciler exApplyFails (''ns'', ''a'') (snd (snd exPass1))"

text \<open>
  Instances that request storage, with or without a size, one of them naming an
  unknown distribution, and a cluster in which the claim already exists.
\<close>

definition withServer :: "(ServerSpec \<Rightarrow> ServerSpec) \<Rightarrow> LlamaStackDistribution \<Rightarrow> LlamaStackDistribution" where
  "withServer f inst =
     inst\<lparr>lsd_Spec := (lsd_Spec inst)\<lparr>spec_Server := f (spec_Server (lsd_Spec inst))\<rparr>\<rparr>"

definition exInstanceStorage :: "string option \<Rightarrow> LlamaStackDistribution" where
  "exInstanceStorage sz =
     withServer (\<lambda>s. s\<lparr>srv_Storage := Some \<lparr>storage_Size = sz\<rparr>\<rparr>) exInstance"

definition exInstanceBad :: LlamaStackDistribution where
  "exInstanceBad =
     withServer (\<lambda>s. s\<lparr>srv_Distribution := \<lparr>dist_Name = ''bar'', dist_Image = []\<rparr>\<rparr>)
       (exInstanceStorage None)"

definition exClaim :: PersistentVolumeClaim where
  "exClaim =
     \<lparr>pvc_Name = ''a-pvc'', pvc_Namespace = ''ns'', pvc_Owner = Some (''ns'', ''a''),
      pvc_AccessModes = [''ReadWriteOnce''], pvc_StorageRequest = ''10Gi'',
      pvc_Phase = ''Bound''\<rparr>"

definition exClusterWithClaim :: cluster where
  "exClusterWithClaim =
     (exCluster (exInstanceStorage (Some ''20Gi'')) 3)\<lparr>pvcs := [(''ns'', ''a-pvc'') \<mapsto> exClaim]\<rparr>"

section \<open>Frame of the synchronizer\<close>

lemma onlyTouches_refl: "onlyTouches K c c"
  by (simp add: onlyTouches_def)

lemma onlyTouches_trans:
  assumes "onlyTouches K c c1" and "onlyTouches L c1 c2"
  shows "onlyTouches (K \<union> L) c c2"
proof -
  from assms(1) obtain l1 where l1: "calls c1 = calls c @ l1" "\<forall>x\<in>set l1. fst (snd x) \<in> K"
    by (auto simp: onlyTouches_def)
  from assms(2) obtain l2 where l2: "calls c2 = calls c1 @ l2" "\<forall>x\<in>set l2. fst (snd x) \<in> L"
    by (auto simp: onlyTouches_def)
  have "calls c2 = calls c @ (l1 @ l2)" "\<forall>x\<in>set (l1 @ l2). fst (snd x) \<in> K \<union> L"
    using l1 l2 by auto
  then have "\<exists>l. calls c2 = calls c @ l \<and> (\<forall>x\<in>set l. fst (snd x) \<in> K \<union> L)"
    by blast
  then show ?thesis
    using assms by (simp add: onlyTouches_def)
qed

lemma onlyTouches_mono: "onlyTouches K c c' \<Longrightarrow> K \<subseteq> L \<Longrightarrow> onlyTouches L c c'"
  unfolding onlyTouches_def by blast

lemma reconcilePVC_touches:
  "reconcilePVC e inst c = (err, c') \<Longrightarrow> onlyTouches {KindPVC} c c'"
  by (auto simp: reconcilePVC_def CreatePVC_def SetControllerReference_def Get_def logCall_def
      onlyTouches_def Let_def split: option.splits sum.splits if_splits)

lemma reconcileNetworkPolicy_touches:
  "reconcileNetworkPolicy r e inst c = (err, c') \<Longrightarrow> onlyTouches {KindNetworkPolicy} c c'"
  by (auto simp: reconcileNetworkPolicy_def HandleDisabledNetworkPolicy_def ApplyNetworkPolicy_def
      logCall_def onlyTouches_def Let_def split: option.splits sum.splits if_splits)

lemma reconcileDeployment_touches:
  "reconcileDeployment r e inst c = (err, c') \<Longrightarrow> onlyTouches {KindDeployment} c c'"
  by (auto simp: reconcileDeployment_def ApplyDeployment_def
      logCall_def onlyTouches_def Let_def split: option.splits sum.splits if_splits)

lemma reconcileService_touches:
  "reconcileService e inst c = (err, c') \<Longrightarrow> onlyTouches {KindService} c c'"
  by (auto simp: reconcileService_def ApplyService_def
      logCall_def onlyTouches_def Let_def split: option.splits sum.splits if_splits)

lemma reconcileResources_touches:
  assumes "reconcileResources r e inst c = (err, c')"
  shows "onlyTouches {KindPVC, KindNetworkPolicy, KindDeployment, KindService} c c'"
proof -
  obtain e1 c1 where s1:
    "(if srv_Storage (spec_Server (lsd_Spec inst)) \<noteq> None then reconcilePVC e inst c else (None, c))
       = (e1, c1)"
    by (cases "if srv_Storage (spec_Server (lsd_Spec inst)) \<noteq> None
               then reconcilePVC e inst c else (None, c)") auto
  obtain e2 c2 where s2: "reconcileNetworkPolicy r e inst c1 = (e2, c2)"
    by (cases "reconcileNetworkPolicy r e inst c1") auto
  obtain e3 c3 where s3: "reconcileDeployment r e inst c2 = (e3, c3)"
    by (cases "reconcileDeployment r e inst c2") auto
  obtain e4 c4 where s4: "reconcileService e inst c3 = (e4, c4)"
    by (cases "reconcileService e inst c3") auto
  have t1: "onlyTouches {KindPVC} c c1"
    using s1 reconcilePVC_touches by (auto simp: onlyTouches_refl split: if_splits)
  have t2: "onlyTouches {KindPVC, KindNetworkPolicy} c c2"
    using onlyTouches_trans [OF t1 reconcileNetworkPolicy_touches [OF s2]]
    by (simp add: insert_commute)
  have t3: "onlyTouches {KindPVC, KindNetworkPolicy, KindDeployment} c c3"
    using onlyTouches_trans [OF t2 reconcileDeployment_touches [OF s3]]
    by (simp add: insert_commute)
  have t4: "onlyTouches {KindPVC, KindNetworkPolicy, KindDeployment, KindService} c c4"
    using onlyTouches_trans [OF t3 reconcileService_touches [OF s4]]
    by (simp add: insert_commute)
  have "c' = c1 \<or> c' = c2 \<or> c' = c3 \<or> c' = c4"
    using assms s1 s2 s3 s4
    by (auto simp: reconcileResources_def split: option.splits if_splits)
  then show ?thesis
    using t1 t2 t3 t4 by (auto elim: onlyTouches_mono)
qed

text \<open>A reference that is neither a known name nor an explicit image.\<close>

lemma reconcileDeployment_unresolvable:
  assumes "dist_Image (srv_Distribution (spec_Server (lsd_Spec inst))) = []"
    and "dist_Name (srv_Distribution (spec_Server (lsd_Spec inst))) = []
         \<or> DistributionImages r (dist_Name (srv_Distribution (spec_Server (lsd_Spec inst)))) = None"
  shows "\<exists>err. reconcileDeployment r e inst c = (Some err, c)"
  using assms by (auto simp: reconcileDeployment_def validateDistribution_def Let_def)

lemma reconcileResources_unresolvable:
  assumes "dist_Image (srv_Distribution (spec_Server (lsd_Spec inst))) = []"
    and "dist_Name (srv_Distribution (spec_Server (lsd_Spec inst))) = []
         \<or> DistributionImages r (dist_Name (srv_Distribution (spec_Server (lsd_Spec inst)))) = None"
    and "reconcileResources r e inst c = (rerr, c')"
  shows "rerr \<noteq> None \<and> onlyTouches {KindPVC, KindNetworkPolicy} c c'"
proof -
  obtain e1 c1 where s1:
    "(if srv_Storage (spec_Server (lsd_Spec inst)) \<noteq> None then reconcilePVC e inst c else (None, c))
       = (e1, c1)"
    by (cases "if srv_Storage (spec_Server (lsd_Spec inst)) \<noteq> None
               then reconcilePVC e inst c else (None, c)") auto
  obtain e2 c2 where s2: "reconcileNetworkPolicy r e inst c1 = (e2, c2)"
    by (cases "reconcileNetworkPolicy r e inst c1") auto
  obtain e3 where s3: "reconcileDeployment r e inst c2 = (Some e3, c2)"
    using reconcileDeployment_unresolvable [OF assms(1,2)] by blast
  have t1: "onlyTouches {KindPVC} c c1"
    using s1 reconcilePVC_touches by (auto simp: onlyTouches_refl split: if_splits)
  have t2: "onlyTouches {KindPVC, KindNetworkPolicy} c c2"
    using onlyTouches_trans [OF t1 reconcileNetworkPolicy_touches [OF s2]]
    by (simp add: insert_commute)
  have "rerr \<noteq> None \<and> (c' = c1 \<or> c' = c2)"
    using assms(3) s1 s2 s3
    by (auto simp: reconcileResources_def split: option.splits if_splits)
  then show ?thesis
    using t1 t2 by (auto elim: onlyTouches_mono)
qed

section \<open>Status evaluation\<close>

lemmas status_defs = mapStatus_def SetDeploymentReadyCondition_def SetHealthCheckCondition_def
  SetStorageReadyCondition_def SetServiceReadyCondition_def SetCondition_def setPhase_def
  setProviders_def phaseOf_def conditionOf_def providersOf_def availableOf_def keyOf_def

lemma statusUpdate_succeeds:
  assumes "fault e SiteStatusUpdate = None" and "lsds c (keyOf inst) \<noteq> None"
  shows "fst (StatusUpdate e inst c) = None"
  using assms
  by (auto simp: StatusUpdate_def logCall_def Let_def keyOf_def split: option.splits)

lemma statusUpdate_persists:
  assumes "StatusUpdate e inst c = (None, c')"
  shows "map_option lsd_Status (lsds c' (keyOf inst)) = Some (lsd_Status inst)"
  using assms
  by (auto simp: StatusUpdate_def logCall_def Let_def keyOf_def split: option.splits)

text \<open>With a synchronization error the evaluation is skipped and the write is issued.\<close>

lemma updateStatus_syncError:
  assumes "updateStatus r e inst (Some rerr) c = (serr, inst', c')"
  shows "phaseOf inst' = LlamaStackDistributionPhaseFailed"
    and "availableOf inst' = availableOf inst"
    and "providersOf inst' = providersOf inst"
    and "conditionOf ConditionTypeDeploymentReady inst' =
           Some \<lparr>cond_Ready = False,
                 cond_Message = ''Resource reconciliation failed: '' @ Error rerr\<rparr>"
    and "calls c' = calls c @ [(Update, KindStatus, keyOf inst)]"
    and "requests c' = requests c"
    and "pvcs c' = pvcs c \<and> deployments c' = deployments c \<and> services c' = services c
         \<and> networkPolicies c' = networkPolicies c"
    and "serr = None \<longrightarrow> map_option lsd_Status (lsds c' (keyOf inst)) = Some (lsd_Status inst')"
    and "fault e SiteStatusUpdate = None \<and> lsds c (keyOf inst) \<noteq> None \<longrightarrow> serr = None"
  using assms
  by (auto simp: updateStatus_def StatusUpdate_def logCall_def Let_def status_defs
      split: option.splits if_splits)

lemma getServerURL_mapStatus [simp]: "getServerURL (mapStatus f inst) p = getServerURL inst p"
  by (simp add: getServerURL_def mapStatus_def GetServiceName_def GetServicePort_def)

lemma updateDeploymentStatus_fault:
  "fault e SiteStatusDeploymentGet = Some msg \<Longrightarrow>
   updateDeploymentStatus e c inst =
     Inl (Wrapped ''failed to fetch deployment for status'' (Err msg))"
  by (simp add: updateDeploymentStatus_def Get_def Let_def)

lemma updateStatus_fetchFault:
  assumes "fault e SiteStatusDeploymentGet = Some msg"
    and "updateStatus r e inst None c = (serr, inst', c')"
  shows "serr = Some (Wrapped ''failed to fetch deployment for status'' (Err msg)) \<and> c' = c"
  using assms
  by (auto simp: updateStatus_def updateDeploymentStatus_fault Let_def)

text \<open>What the steps before the health checks leave in the instance.\<close>

lemma updateDeploymentStatus_ok:
  assumes "fault e SiteStatusDeploymentGet = None"
  shows "\<exists>inst1. updateDeploymentStatus e c inst = Inr (workloadReady c inst, inst1)
         \<and> availableOf inst1 = observedReadyReplicas c inst
         \<and> lsd_Spec inst1 = lsd_Spec inst \<and> lsd_Name inst1 = lsd_Name inst
         \<and> lsd_Namespace inst1 = lsd_Namespace inst
         \<and> providersOf inst1 = providersOf inst
         \<and> conditionOf ConditionTypeHealthCheck inst1 = conditionOf ConditionTypeHealthCheck inst
         \<and> phaseOf inst1 =
             (if deployments c (keyOf inst) = None then LlamaStackDistributionPhasePending
              else if workloadReady c inst then LlamaStackDistributionPhaseReady
              else LlamaStackDistributionPhaseInitializing)"
  using assms
  by (auto simp: updateDeploymentStatus_def Get_def Let_def status_defs workloadReady_def
      observedReadyReplicas_def zeroDeployment_def split: option.splits)

lemma updateDeploymentStatus_condition:
  assumes "fault e SiteStatusDeploymentGet = None"
    and "deployments c (keyOf inst) = Some d"
    and "updateDeploymentStatus e c inst = Inr (b, inst1)"
  shows "conditionOf ConditionTypeDeploymentReady inst1 =
           Some \<lparr>cond_Ready = workloadReady c inst,
                 cond_Message =
                   (if dep_ReadyReplicas d = 0 then MessageDeploymentPending e
                    else if dep_ReadyReplicas d < spec_Replicas (lsd_Spec inst) then
                      ''Deployment is scaling: '' @ fmtInt (dep_ReadyReplicas d) @ ''/''
                        @ fmtInt (spec_Replicas (lsd_Spec inst)) @ '' replicas ready''
                    else if dep_ReadyReplicas d > spec_Replicas (lsd_Spec inst) then
                      ''Deployment is scaling down: '' @ fmtInt (dep_ReadyReplicas d) @ ''/''
                        @ fmtInt (spec_Replicas (lsd_Spec inst)) @ '' replicas ready''
                    else MessageDeploymentReady e)\<rparr>"
  using assms
  by (auto simp: updateDeploymentStatus_def Get_def Let_def status_defs workloadReady_def
      split: if_splits)

lemma middle_steps:
  "phaseOf (updateDistributionConfig r (updateServiceStatus e c (updateStorageStatus e c inst)))
     = phaseOf inst"
  "availableOf (updateDistributionConfig r (updateServiceStatus e c (updateStorageStatus e c inst)))
     = availableOf inst"
  "providersOf (updateDistributionConfig r (updateServiceStatus e c (updateStorageStatus e c inst)))
     = providersOf inst"
  "conditionOf ConditionTypeDeploymentReady
     (updateDistributionConfig r (updateServiceStatus e c (updateStorageStatus e c inst)))
     = conditionOf ConditionTypeDeploymentReady inst"
  "conditionOf ConditionTypeHealthCheck
     (updateDistributionConfig r (updateServiceStatus e c (updateStorageStatus e c inst)))
     = conditionOf ConditionTypeHealthCheck inst"
  "getServerURL (updateDistributionConfig r (updateServiceStatus e c (updateStorageStatus e c inst))) p
     = getServerURL inst p"
  "keyOf (updateDistributionConfig r (updateServiceStatus e c (updateStorageStatus e c inst)))
     = keyOf inst"
  by (auto simp: updateDistributionConfig_def updateServiceStatus_def updateStorageStatus_def
      Let_def status_defs HasPorts_def getServerURL_def GetServiceName_def GetServicePort_def
      split: sum.splits)

lemma getProviderInfo_frame:
  "getProviderInfo e inst c = (res, c') \<Longrightarrow>
     lsds c' = lsds c \<and> pvcs c' = pvcs c \<and> deployments c' = deployments c
     \<and> services c' = services c \<and> networkPolicies c' = networkPolicies c \<and> calls c' = calls c"
  by (auto simp: getProviderInfo_def httpGet_def split: http_outcome.splits sum.splits if_splits)

lemma checkHealth_frame:
  "checkHealth e inst c = (res, c') \<Longrightarrow>
     lsds c' = lsds c \<and> pvcs c' = pvcs c \<and> deployments c' = deployments c
     \<and> services c' = services c \<and> networkPolicies c' = networkPolicies c \<and> calls c' = calls c"
  by (auto simp: checkHealth_def httpGet_def split: http_outcome.splits)

lemma getProviderInfo_fst: "fst (getProviderInfo e inst c) = fst (getProviderInfo e inst c0)"
  by (auto simp: getProviderInfo_def httpGet_def split: http_outcome.splits sum.splits)

lemma getProviderInfo_mapStatus [simp]:
  "getProviderInfo e (mapStatus f inst) c = getProviderInfo e inst c"
  by (simp add: getProviderInfo_def)

lemma checkHealth_fst:
  "fst (checkHealth e inst c) =
     (case http e (getServerURL inst ''/v1/health'') of
        NewRequestError err \<Rightarrow> Inl (Wrapped ''failed to create health check request'' err)
      | DoError err \<Rightarrow> Inl (Wrapped ''failed to make health check request'' err)
      | Response code body \<Rightarrow> Inr (code = 200))"
  by (auto simp: checkHealth_def httpGet_def split: http_outcome.splits)

lemma performHealthChecks_result:
  assumes "performHealthChecks e inst c = (inst', c')"
  shows "phaseOf inst' =
           (case http e (getServerURL inst ''/v1/health'') of
              NewRequestError err \<Rightarrow> LlamaStackDistributionPhaseInitializing
            | DoError err \<Rightarrow> LlamaStackDistributionPhaseInitializing
            | Response code body \<Rightarrow>
                (if code = 200 then LlamaStackDistributionPhaseReady
                 else LlamaStackDistributionPhaseFailed))"
    and "map_option cond_Ready (conditionOf ConditionTypeHealthCheck inst') =
           Some (case http e (getServerURL inst ''/v1/health'') of
                   NewRequestError err \<Rightarrow> False
                 | DoError err \<Rightarrow> False
                 | Response code body \<Rightarrow> code = 200)"
    and "providersOf inst' =
           (case fst (getProviderInfo e inst c) of Inl err \<Rightarrow> [] | Inr ps \<Rightarrow> ps)"
    and "availableOf inst' = availableOf inst"
    and "conditionOf ConditionTypeDeploymentReady inst' = conditionOf ConditionTypeDeploymentReady inst"
    and "keyOf inst' = keyOf inst"
    and "calls c' = calls c"
    and "lsds c' = lsds c"
proof -
  obtain h c1 where h: "checkHealth e inst c = (h, c1)"
    by (cases "checkHealth e inst c") auto
  define inst1 where "inst1 =
     (case h of
        Inl err \<Rightarrow>
          mapStatus (\<lambda>st. SetHealthCheckCondition
              (setPhase LlamaStackDistributionPhaseInitializing st)
              False (''Health check failed: '' @ Error err)) inst
      | Inr healthy \<Rightarrow>
          (if \<not> healthy then
             mapStatus (\<lambda>st. SetHealthCheckCondition
                 (setPhase LlamaStackDistributionPhaseFailed st)
                 False (MessageHealthCheckFailed e)) inst
           else
             mapStatus (\<lambda>st. SetHealthCheckCondition
                 (setPhase LlamaStackDistributionPhaseReady st)
                 True (MessageHealthCheckPassed e)) inst))"
  obtain l c2 where l: "getProviderInfo e inst c1 = (l, c2)"
    by (cases "getProviderInfo e inst c1") auto
  have l1: "getProviderInfo e inst1 c1 = (l, c2)"
    using l by (simp add: inst1_def split: sum.splits)
  have res: "inst' = (case l of Inl err \<Rightarrow> mapStatus (setProviders []) inst1
                      | Inr ps \<Rightarrow> mapStatus (setProviders ps) inst1)" "c' = c2"
    using assms h l1 by (auto simp: performHealthChecks_def inst1_def [symmetric] split: sum.splits)
  have hv: "h = fst (checkHealth e inst c)"
    using h by simp
  have lv: "l = fst (getProviderInfo e inst c)"
    using l getProviderInfo_fst [of e inst c1 c] by simp
  show "phaseOf inst' =
           (case http e (getServerURL inst ''/v1/health'') of
              NewRequestError err \<Rightarrow> LlamaStackDistributionPhaseInitializing
            | DoError err \<Rightarrow> LlamaStackDistributionPhaseInitializing
            | Response code body \<Rightarrow>
                (if code = 200 then LlamaStackDistributionPhaseReady
                 else LlamaStackDistributionPhaseFailed))"
    unfolding res inst1_def hv checkHealth_fst
    by (simp add: status_defs split: http_outcome.splits sum.splits)
  show "map_option cond_Ready (conditionOf ConditionTypeHealthCheck inst') =
           Some (case http e (getServerURL inst ''/v1/health'') of
                   NewRequestError err \<Rightarrow> False
                 | DoError err \<Rightarrow> False
                 | Response code body \<Rightarrow> code = 200)"
    unfolding res inst1_def hv checkHealth_fst
    by (simp add: status_defs split: http_outcome.splits sum.splits)
  show "providersOf inst' =
           (case fst (getProviderInfo e inst c) of Inl err \<Rightarrow> [] | Inr ps \<Rightarrow> ps)"
    unfolding res lv [symmetric]
    by (simp add: status_defs split: sum.splits)
  show "availableOf inst' = availableOf inst"
    unfolding res inst1_def
    by (simp add: status_defs split: sum.splits)
  show "conditionOf ConditionTypeDeploymentReady inst' = conditionOf ConditionTypeDeploymentReady inst"
    unfolding res inst1_def
    by (simp add: status_defs split: sum.splits)
  show "keyOf inst' = keyOf inst"
    unfolding res inst1_def
    by (simp add: status_defs split: sum.splits)
  show "calls c' = calls c"
    using checkHealth_frame [OF h] getProviderInfo_frame [OF l] res by simp
  show "lsds c' = lsds c"
    using checkHealth_frame [OF h] getProviderInfo_frame [OF l] res by simp
qed

lemma updateStatus_notReady:
  assumes "fault e SiteStatusDeploymentGet = None"
    and "\<not> workloadReady c inst"
    and "updateStatus r e inst None c = (serr, inst', c')"
  shows "phaseOf inst' =
           (if deployments c (keyOf inst) = None then LlamaStackDistributionPhasePending
            else LlamaStackDistributionPhaseInitializing)"
    and "availableOf inst' = observedReadyReplicas c inst"
    and "providersOf inst' = []"
    and "conditionOf ConditionTypeHealthCheck inst' =
           Some \<lparr>cond_Ready = False, cond_Message = ''Deployment not ready''\<rparr>"
    and "requests c' = requests c"
    and "calls c' = calls c @ [(Update, KindStatus, keyOf inst)]"
    and "serr = None \<longrightarrow> map_option lsd_Status (lsds c' (keyOf inst)) = Some (lsd_Status inst')"
    and "fault e SiteStatusUpdate = None \<and> lsds c (keyOf inst) \<noteq> None \<longrightarrow> serr = None"
proof -
  define inst0 where "inst0 =
     (if ver_OperatorVersion (st_Version (lsd_Status inst)) = []
      then mapStatus (\<lambda>st. st\<lparr>st_Version := (st_Version st)
             \<lparr>ver_OperatorVersion := Getenv e ''OPERATOR_VERSION''\<rparr>\<rparr>) inst
      else inst)"
  have same: "keyOf inst0 = keyOf inst" "lsd_Spec inst0 = lsd_Spec inst"
    by (simp_all add: inst0_def status_defs)
  then have w0: "workloadReady c inst0 = workloadReady c inst"
    "observedReadyReplicas c inst0 = observedReadyReplicas c inst"
    by (simp_all add: workloadReady_def observedReadyReplicas_def split: option.splits)
  obtain inst1 where u: "updateDeploymentStatus e c inst0 = Inr (False, inst1)"
    and a1: "availableOf inst1 = observedReadyReplicas c inst"
    and k1: "lsd_Name inst1 = lsd_Name inst0" "lsd_Namespace inst1 = lsd_Namespace inst0"
    and p1: "phaseOf inst1 =
               (if deployments c (keyOf inst) = None then LlamaStackDistributionPhasePending
                else LlamaStackDistributionPhaseInitializing)"
    using updateDeploymentStatus_ok [OF assms(1), of c inst0] assms(2) w0 same by auto
  define inst4 where
    "inst4 = updateDistributionConfig r (updateServiceStatus e c (updateStorageStatus e c inst1))"
  have m: "phaseOf inst4 = phaseOf inst1" "availableOf inst4 = availableOf inst1"
    "keyOf inst4 = keyOf inst1"
    by (simp_all add: inst4_def middle_steps)
  define inst6 where "inst6 =
     mapStatus (\<lambda>st. st\<lparr>st_Version := (st_Version st)\<lparr>ver_LastUpdated := Now e\<rparr>\<rparr>)
       (mapStatus (\<lambda>st. setProviders []
           (SetHealthCheckCondition st False ''Deployment not ready'')) inst4)"
  have us: "updateStatus r e inst None c =
              (case StatusUpdate e inst6 c of
                 (Some err, c6) \<Rightarrow> (Some (Wrapped ''failed to update status'' err), inst6, c6)
               | (None, c6) \<Rightarrow> (None, inst6, c6))"
    using u unfolding inst6_def inst4_def inst0_def by (simp add: updateStatus_def Let_def)
  have i: "inst' = inst6" and cc: "c' = snd (StatusUpdate e inst6 c)"
    using assms(3) unfolding us by (auto split: prod.splits option.splits)
  have k6: "keyOf inst6 = keyOf inst"
    using m(3) k1 same by (simp add: inst6_def status_defs)
  show "phaseOf inst' =
           (if deployments c (keyOf inst) = None then LlamaStackDistributionPhasePending
            else LlamaStackDistributionPhaseInitializing)"
    using m(1) p1 unfolding i inst6_def by (simp add: status_defs)
  show "availableOf inst' = observedReadyReplicas c inst"
    using m(2) a1 unfolding i inst6_def by (simp add: status_defs)
  show "providersOf inst' = []"
    unfolding i inst6_def by (simp add: status_defs)
  show "conditionOf ConditionTypeHealthCheck inst' =
           Some \<lparr>cond_Ready = False, cond_Message = ''Deployment not ready''\<rparr>"
    unfolding i inst6_def by (simp add: status_defs)
  show "requests c' = requests c"
    unfolding cc by (simp add: StatusUpdate_def logCall_def Let_def split: option.splits)
  show "calls c' = calls c @ [(Update, KindStatus, keyOf inst)]"
    unfolding cc using k6
    by (simp add: StatusUpdate_def logCall_def Let_def keyOf_def split: option.splits)
  show "serr = None \<longrightarrow> map_option lsd_Status (lsds c' (keyOf inst)) = Some (lsd_Status inst')"
  proof
    assume "serr = None"
    then have "StatusUpdate e inst6 c = (None, c')"
      using assms(3) unfolding us by (auto split: prod.splits option.splits)
    then show "map_option lsd_Status (lsds c' (keyOf inst)) = Some (lsd_Status inst')"
      using statusUpdate_persists [of e inst6 c c'] k6 i by simp
  qed
  show "fault e SiteStatusUpdate = None \<and> lsds c (keyOf inst) \<noteq> None \<longrightarrow> serr = None"
  proof
    assume "fault e SiteStatusUpdate = None \<and> lsds c (keyOf inst) \<noteq> None"
    then have "fst (StatusUpdate e inst6 c) = None"
      using statusUpdate_succeeds [of e c inst6] k6 by simp
    then show "serr = None"
      using assms(3) unfolding us by (auto split: prod.splits option.splits)
  qed
qed

lemma updateStatus_ready:
  assumes "fault e SiteStatusDeploymentGet = None"
    and "workloadReady c inst"
    and "updateStatus r e inst None c = (serr, inst', c')"
  shows "phaseOf inst' =
           (case http e (getServerURL inst ''/v1/health'') of
              NewRequestError err \<Rightarrow> LlamaStackDistributionPhaseInitializing
            | DoError err \<Rightarrow> LlamaStackDistributionPhaseInitializing
            | Response code body \<Rightarrow>
                (if code = 200 then LlamaStackDistributionPhaseReady
                 else LlamaStackDistributionPhaseFailed))"
    and "map_option cond_Ready (conditionOf ConditionTypeHealthCheck inst') =
           Some (case http e (getServerURL inst ''/v1/health'') of
                   NewRequestError err \<Rightarrow> False
                 | DoError err \<Rightarrow> False
                 | Response code body \<Rightarrow> code = 200)"
    and "providersOf inst' =
           (case fst (getProviderInfo e inst c) of Inl err \<Rightarrow> [] | Inr ps \<Rightarrow> ps)"
    and "availableOf inst' = observedReadyReplicas c inst"
    and "calls c' = calls c @ [(Update, KindStatus, keyOf inst)]"
    and "serr = None \<longrightarrow> map_option lsd_Status (lsds c' (keyOf inst)) = Some (lsd_Status inst')"
    and "fault e SiteStatusUpdate = None \<and> lsds c (keyOf inst) \<noteq> None \<longrightarrow> serr = None"
proof -
  define inst0 where "inst0 =
     (if ver_OperatorVersion (st_Version (lsd_Status inst)) = []
      then mapStatus (\<lambda>st. st\<lparr>st_Version := (st_Version st)
             \<lparr>ver_OperatorVersion := Getenv e ''OPERATOR_VERSION''\<rparr>\<rparr>) inst
      else inst)"
  have same: "keyOf inst0 = keyOf inst" "lsd_Spec inst0 = lsd_Spec inst"
    "getServerURL inst0 = getServerURL inst" "getProviderInfo e inst0 = getProviderInfo e inst"
    by (auto simp add: inst0_def status_defs getServerURL_def GetServiceName_def
        GetServicePort_def getProviderInfo_def fun_eq_iff)
  then have w0: "workloadReady c inst0 = workloadReady c inst"
    "observedReadyReplicas c inst0 = observedReadyReplicas c inst"
    by (simp_all add: workloadReady_def observedReadyReplicas_def split: option.splits)
  obtain inst1 where u: "updateDeploymentStatus e c inst0 = Inr (True, inst1)"
    and a1: "availableOf inst1 = observedReadyReplicas c inst"
    and k1: "lsd_Name inst1 = lsd_Name inst0" "lsd_Namespace inst1 = lsd_Namespace inst0"
      "lsd_Spec inst1 = lsd_Spec inst0"
    using updateDeploymentStatus_ok [OF assms(1), of c inst0] assms(2) w0 same by auto
  have url1: "getServerURL inst1 = getServerURL inst"
    using k1 same(3)
    by (auto simp: getServerURL_def GetServiceName_def GetServicePort_def fun_eq_iff)
  define inst4 where
    "inst4 = updateDistributionConfig r (updateServiceStatus e c (updateStorageStatus e c inst1))"
  have m: "availableOf inst4 = availableOf inst1" "keyOf inst4 = keyOf inst1"
    "getServerURL inst4 = getServerURL inst"
    using url1 by (simp_all add: inst4_def middle_steps fun_eq_iff)
  have gp: "fst (getProviderInfo e inst4 c) = fst (getProviderInfo e inst c)"
    using m(3) by (simp add: getProviderInfo_def)
  obtain inst5 c5 where ph: "performHealthChecks e inst4 c = (inst5, c5)"
    by (cases "performHealthChecks e inst4 c") auto
  note r5 = performHealthChecks_result [OF ph]
  define inst6 where "inst6 =
     mapStatus (\<lambda>st. st\<lparr>st_Version := (st_Version st)\<lparr>ver_LastUpdated := Now e\<rparr>\<rparr>) inst5"
  have us: "updateStatus r e inst None c =
              (case StatusUpdate e inst6 c5 of
                 (Some err, c6) \<Rightarrow> (Some (Wrapped ''failed to update status'' err), inst6, c6)
               | (None, c6) \<Rightarrow> (None, inst6, c6))"
    using u ph unfolding inst6_def inst4_def inst0_def by (simp add: updateStatus_def Let_def)
  have i: "inst' = inst6" and cc: "c' = snd (StatusUpdate e inst6 c5)"
    using assms(3) unfolding us by (auto split: prod.splits option.splits)
  have k6: "keyOf inst6 = keyOf inst"
    using r5(6) m(2) k1 same by (simp add: inst6_def status_defs)
  show "phaseOf inst' =
           (case http e (getServerURL inst ''/v1/health'') of
              NewRequestError err \<Rightarrow> LlamaStackDistributionPhaseInitializing
            | DoError err \<Rightarrow> LlamaStackDistributionPhaseInitializing
            | Response code body \<Rightarrow>
                (if code = 200 then LlamaStackDistributionPhaseReady
                 else LlamaStackDistributionPhaseFailed))"
    using r5(1) m(3) unfolding i inst6_def by (simp add: status_defs)
  show "map_option cond_Ready (conditionOf ConditionTypeHealthCheck inst') =
           Some (case http e (getServerURL inst ''/v1/health'') of
                   NewRequestError err \<Rightarrow> False
                 | DoError err \<Rightarrow> False
                 | Response code body \<Rightarrow> code = 200)"
    using r5(2) m(3) unfolding i inst6_def by (simp add: status_defs)
  show "providersOf inst' =
           (case fst (getProviderInfo e inst c) of Inl err \<Rightarrow> [] | Inr ps \<Rightarrow> ps)"
    using r5(3) gp unfolding i inst6_def by (simp add: status_defs)
  show "availableOf inst' = observedReadyReplicas c inst"
    using r5(4) m(1) a1 unfolding i inst6_def by (simp add: status_defs)
  show "calls c' = calls c @ [(Update, KindStatus, keyOf inst)]"
    unfolding cc using k6 r5(7)
    by (simp add: StatusUpdate_def logCall_def Let_def keyOf_def split: option.splits)
  show "serr = None \<longrightarrow> map_option lsd_Status (lsds c' (keyOf inst)) = Some (lsd_Status inst')"
  proof
    assume "serr = None"
    then have "StatusUpdate e inst6 c5 = (None, c')"
      using assms(3) unfolding us by (auto split: prod.splits option.splits)
    then show "map_option lsd_Status (lsds c' (keyOf inst)) = Some (lsd_Status inst')"
      using statusUpdate_persists [of e inst6 c5 c'] k6 i by simp
  qed
  show "fault e SiteStatusUpdate = None \<and> lsds c (keyOf inst) \<noteq> None \<longrightarrow> serr = None"
  proof
    assume "fault e SiteStatusUpdate = None \<and> lsds c (keyOf inst) \<noteq> None"
    then have "fst (StatusUpdate e inst6 c5) = None"
      using statusUpdate_succeeds [of e c5 inst6] k6 r5(8) by simp
    then show "serr = None"
      using assms(3) unfolding us by (auto split: prod.splits option.splits)
  qed
qed

lemma evaluated_eq:
  "updateStatus r e inst None c =
     (fst (updateStatus r e inst None c), evaluated r e inst c, snd (snd (updateStatus r e inst None c)))"
  by (simp add: evaluated_def)

lemma workloadReady_with [simp]:
  "workloadReady (withReadyReplicas n d inst c) inst \<longleftrightarrow> n = spec_Replicas (lsd_Spec inst) \<and> n \<noteq> 0"
  by (simp add: workloadReady_def withReadyReplicas_def)

lemma fmtInt_digit: "fmtInt 2 = ''2''" "fmtInt 3 = ''3''" "fmtInt 4 = ''4''"
  by (simp_all add: fmtInt_def fmtNat.simps digitChar_def)

lemma updateStatus_deploymentCondition:
  assumes "fault e SiteStatusDeploymentGet = None"
    and "deployments c (keyOf inst) = Some d"
    and "updateStatus r e inst None c = (serr, inst', c')"
  shows "conditionOf ConditionTypeDeploymentReady inst' =
           Some \<lparr>cond_Ready = workloadReady c inst,
                 cond_Message =
                   (if dep_ReadyReplicas d = 0 then MessageDeploymentPending e
                    else if dep_ReadyReplicas d < spec_Replicas (lsd_Spec inst) then
                      ''Deployment is scaling: '' @ fmtInt (dep_ReadyReplicas d) @ ''/''
                        @ fmtInt (spec_Replicas (lsd_Spec inst)) @ '' replicas ready''
                    else if dep_ReadyReplicas d > spec_Replicas (lsd_Spec inst) then
                      ''Deployment is scaling down: '' @ fmtInt (dep_ReadyReplicas d) @ ''/''
                        @ fmtInt (spec_Replicas (lsd_Spec inst)) @ '' replicas ready''
                    else MessageDeploymentReady e)\<rparr>"
proof -
  define inst0 where "inst0 =
     (if ver_OperatorVersion (st_Version (lsd_Status inst)) = []
      then mapStatus (\<lambda>st. st\<lparr>st_Version := (st_Version st)
             \<lparr>ver_OperatorVersion := Getenv e ''OPERATOR_VERSION''\<rparr>\<rparr>) inst
      else inst)"
  have same: "keyOf inst0 = keyOf inst" "lsd_Spec inst0 = lsd_Spec inst"
    by (simp_all add: inst0_def status_defs)
  then have w0: "workloadReady c inst0 = workloadReady c inst"
    by (simp_all add: workloadReady_def split: option.splits)
  obtain inst1 where u: "updateDeploymentStatus e c inst0 = Inr (workloadReady c inst, inst1)"
    using updateDeploymentStatus_ok [OF assms(1), of c inst0] w0 by auto
  note c1 = updateDeploymentStatus_condition [OF assms(1) _ u, of d, unfolded same w0, OF assms(2)]
  define inst4 where
    "inst4 = updateDistributionConfig r (updateServiceStatus e c (updateStorageStatus e c inst1))"
  have m: "conditionOf ConditionTypeDeploymentReady inst4 = conditionOf ConditionTypeDeploymentReady inst1"
    by (simp_all add: inst4_def middle_steps)
  have k: "conditionOf ConditionTypeDeploymentReady inst' = conditionOf ConditionTypeDeploymentReady inst4"
  proof (cases "workloadReady c inst")
    case True
    obtain inst5 c5 where ph: "performHealthChecks e inst4 c = (inst5, c5)"
      by (cases "performHealthChecks e inst4 c") auto
    define inst6 where "inst6 =
       mapStatus (\<lambda>st. st\<lparr>st_Version := (st_Version st)\<lparr>ver_LastUpdated := Now e\<rparr>\<rparr>) inst5"
    have us: "updateStatus r e inst None c =
                (case StatusUpdate e inst6 c5 of
                   (Some err, c6) \<Rightarrow> (Some (Wrapped ''failed to update status'' err), inst6, c6)
                 | (None, c6) \<Rightarrow> (None, inst6, c6))"
      using u ph True unfolding inst6_def inst4_def inst0_def
      by (simp add: updateStatus_def Let_def)
    have "inst' = inst6"
      using assms(3) unfolding us by (auto split: prod.splits option.splits)
    then show ?thesis
      using performHealthChecks_result(5) [OF ph] by (simp add: inst6_def status_defs)
  next
    case False
    define inst6 where "inst6 =
       mapStatus (\<lambda>st. st\<lparr>st_Version := (st_Version st)\<lparr>ver_LastUpdated := Now e\<rparr>\<rparr>)
         (mapStatus (\<lambda>st. setProviders []
             (SetHealthCheckCondition st False ''Deployment not ready'')) inst4)"
    have us: "updateStatus r e inst None c =
                (case StatusUpdate e inst6 c of
                   (Some err, c6) \<Rightarrow> (Some (Wrapped ''failed to update status'' err), inst6, c6)
                 | (None, c6) \<Rightarrow> (None, inst6, c6))"
      using u False unfolding inst6_def inst4_def inst0_def
      by (simp add: updateStatus_def Let_def)
    have "inst' = inst6"
      using assms(3) unfolding us by (auto split: prod.splits option.splits)
    then show ?thesis
      by (simp add: inst6_def status_defs)
  qed
  show ?thesis
    using c1 m k by simp
qed

section \<open>The pass as a whole, and the example values\<close>

lemma triple_eq: "x = (fst x, fst (snd x), snd (snd x))"
  by simp

lemma Reconcile_found:
  assumes "fetchInstance e req c = Inr (Some inst)"
    and "reconcileResources r e inst c = (rerr, c1)"
    and "updateStatus r e inst rerr c1 = (serr, inst1, c2)"
  shows "Reconcile r e req c =
           ((if rerr = None \<and> serr = None
                 \<and> phaseOf inst1 = LlamaStackDistributionPhaseInitializing
             then \<lparr>RequeueAfter = 10 * Second\<rparr> else emptyResult,
             case rerr of Some x \<Rightarrow> Some x | None \<Rightarrow> serr),
            Some inst1, c2)"
  using assms by (auto simp: Reconcile_def phaseOf_def split: option.splits)

lemma reconcileResources_error:
  assumes "reconcileResources r e inst c = (Some x, c')"
  shows "\<exists>p y. x = Wrapped p y \<and> p \<noteq> ''failed to update status''"
  using assms
  by (auto simp: reconcileResources_def split: prod.splits option.splits if_splits)

lemmas ex_defs = exEnv_def exEnvFaults_def exReconciler_def exInstance_def exInstanceZero_def
  exCluster_def exDeployment_def zeroDeployment_def exDecode_def exListingBody_def quoted_def

lemmas model_defs = Reconcile_def fetchInstance_def Get_def reconcileResources_def
  reconcilePVC_def reconcileNetworkPolicy_def reconcileDeployment_def reconcileService_def
  HandleDisabledNetworkPolicy_def ApplyNetworkPolicy_def ApplyDeployment_def ApplyService_def
  CreatePVC_def SetControllerReference_def validateDistribution_def resolveImage_def
  buildContainerSpec_def configurePodStorage_def instanceLabels_def HasPorts_def
  GetServicePort_def GetServiceName_def logCall_def updateStatus_def updateDeploymentStatus_def
  updateStorageStatus_def updateServiceStatus_def updateDistributionConfig_def
  performHealthChecks_def checkHealth_def getProviderInfo_def httpGet_def getServerURL_def
  StatusUpdate_def emptyResult_def Second_def Let_def

lemma ex_both_errors:
  "fetchInstance (exEnvFaults [(SiteDeployment, ''boom''), (SiteStatusUpdate, ''conflict'')])
     (''ns'', ''a'') (exCluster exInstance 3) = Inr (Some exInstance)"
  "fst (reconcileResources exReconciler
       (exEnvFaults [(SiteDeployment, ''boom''), (SiteStatusUpdate, ''conflict'')])
       exInstance (exCluster exInstance 3))
     = Some (Wrapped ''failed to reconcile Deployment''
               (Wrapped ''failed to apply deployment'' (Err ''boom'')))"
  "snd (reconcileResources exReconciler
       (exEnvFaults [(SiteDeployment, ''boom''), (SiteStatusUpdate, ''conflict'')])
       exInstance (exCluster exInstance 3)) = exCluster exInstance 3"
  by (simp_all add: ex_defs model_defs)

lemma ex_write_fails:
  "fetchInstance exWriteFails (''ns'', ''a'') (exCluster exInstance 3) = Inr (Some exInstance)"
  "fst (reconcileResources exReconciler exWriteFails exInstance (exCluster exInstance 3)) = None"
  "snd (fst (Reconcile exReconciler exWriteFails (''ns'', ''a'') (exCluster exInstance 3)))
     = Some (Wrapped ''failed to update status'' (Err ''conflict''))"
  by (simp_all add: ex_defs model_defs exWriteFails_def status_defs fmtInt_def fmtNat.simps digitChar_def)

lemmas eval_defs = ex_defs model_defs status_defs exBothFail_def exWriteFails_def exReadFails_def
  exSyncError_def fmtInt_def fmtNat.simps digitChar_def

lemma ex_both_fail:
  "fetchInstance exBothFail (''ns'', ''a'') (exCluster exInstance 3) = Inr (Some exInstance)"
  "reconcileResources exReconciler exBothFail exInstance (exCluster exInstance 3)
     = (Some exSyncError, exCluster exInstance 3)"
  "fst (updateStatus exReconciler exBothFail exInstance (Some exSyncError) (exCluster exInstance 3))
     = Some (Wrapped ''failed to update status'' (Err ''conflict''))"
  by (simp_all add: eval_defs)

lemma ex_zero:
  "fetchInstance exEnv (''ns'', ''a'') (exCluster exInstanceZero 0) = Inr (Some exInstanceZero)"
  "fst (reconcileResources exReconciler exEnv exInstanceZero (exCluster exInstanceZero 0)) = None"
  "map_option dep_ReadyReplicas
     (deployments (snd (reconcileResources exReconciler exEnv exInstanceZero
                          (exCluster exInstanceZero 0))) (''ns'', ''a'')) = Some 0"
  "fst (Reconcile exReconciler exEnv (''ns'', ''a'') (exCluster exInstanceZero 0))
     = (\<lparr>RequeueAfter = 10 * Second\<rparr>, None)"
  by (simp_all add: eval_defs)

lemma ex_ready: "workloadReady (exCluster exInstance 3) exInstance"
  by (simp add: workloadReady_def keyOf_def exCluster_def exInstance_def exDeployment_def)

lemma ex_health_url:
  "http exEnv (getServerURL exInstance ''/v1/health'') = Response 200 (Inr ''{}'')"
  "http exUnhealthy (getServerURL exInstance ''/v1/health'') = Response 503 (Inr [])"
  "http exUnreachable (getServerURL exInstance ''/v1/health'') = DoError (Err ''timeout'')"
  "fault exEnv = (\<lambda>s. None)" "fault exUnhealthy = (\<lambda>s. None)" "fault exUnreachable = (\<lambda>s. None)"
  by (simp_all add: exEnv_def exUnhealthy_def exUnreachable_def exInstance_def getServerURL_def
      GetServiceName_def GetServicePort_def fmtInt_def fmtNat.simps digitChar_def)

lemma quad_eq: "x = ((fst (fst x), snd (fst x)), fst (snd x), snd (snd x))"
  by simp

lemma ex_apply_fails:
  "fetchInstance exApplyFails (''ns'', ''a'') (exCluster exInstance 3) = Inr (Some exInstance)"
  "reconcileResources exReconciler exApplyFails exInstance (exCluster exInstance 3)
     = (Some exSyncError, exCluster exInstance 3)"
  "fault exApplyFails SiteStatusUpdate = None"
  "lsds (exCluster exInstance 3) (''ns'', ''a'') = Some exInstance"
  "calls (exCluster exInstance 3) = []"
  by (simp_all add: eval_defs exApplyFails_def)

lemma ex_read_fails:
  "fetchInstance exReadFails (''ns'', ''a'') (exCluster exInstance 3) = Inr (Some exInstance)"
  "reconcileResources exReconciler exReadFails exInstance (exCluster exInstance 3)
     = (None, exCluster exInstance 3)"
  "fault exReadFails SiteStatusDeploymentGet = Some ''timeout''"
  by (simp_all add: eval_defs)

lemma ex_replicas: "spec_Replicas (lsd_Spec exInstance) = 3"
  by (simp add: exInstance_def)


lemma ex_key: "keyOf exInstance = (''ns'', ''a'')"
  by (simp add: keyOf_def exInstance_def)

lemma ex_pass1:
  "case exPass1 of
     ((res, err), oi, c) \<Rightarrow>
       map_option availableOf oi = Some 2
       \<and> err = Some (Wrapped ''failed to update status'' (Err ''conflict''))
       \<and> lsds c = lsds (exCluster exInstance 2)
       \<and> map_option dep_ReadyReplicas (deployments c (''ns'', ''a'')) = Some 2
       \<and> pvcs c = Map.empty \<and> networkPolicies c = Map.empty"
  by (simp add: exPass1_def eval_defs)

lemma reconcilePVC_exists:
  "pvcs c (lsd_Namespace inst, lsd_Name inst @ ''-pvc'') = Some p \<Longrightarrow>
   snd (reconcilePVC e inst c) = c"
  by (auto simp: reconcilePVC_def SetControllerReference_def Get_def Let_def
      split: option.splits sum.splits)

lemma reconcilePVC_creates:
  assumes "srv_Storage (spec_Server (lsd_Spec inst)) = Some st"
    and "pvcs c (lsd_Namespace inst, lsd_Name inst @ ''-pvc'') = None"
    and "fault e SiteSetControllerReference = None"
    and "fault e SitePVCGet = None"
    and "fault e SitePVCCreate = None"
  shows "reconcilePVC e inst c =
           (None,
            c\<lparr>calls := calls c @ [(Create, KindPVC, (lsd_Namespace inst, lsd_Name inst @ ''-pvc''))],
              pvcs := (pvcs c)((lsd_Namespace inst, lsd_Name inst @ ''-pvc'') \<mapsto>
                 \<lparr>pvc_Name = lsd_Name inst @ ''-pvc'',
                  pvc_Namespace = lsd_Namespace inst,
                  pvc_Owner = Some (lsd_Namespace inst, lsd_Name inst),
                  pvc_AccessModes = [''ReadWriteOnce''],
                  pvc_StorageRequest =
                    (case storage_Size st of None \<Rightarrow> DefaultStorageSize e | Some q \<Rightarrow> q),
                  pvc_Phase = []\<rparr>)\<rparr>)"
  using assms
  by (simp add: reconcilePVC_def SetControllerReference_def Get_def CreatePVC_def logCall_def
      Let_def)

lemma reconcileResources_after_storage:
  assumes "reconcileResources r e inst c = (err, c')"
  shows "onlyTouches {KindNetworkPolicy, KindDeployment, KindService}
           (snd (if srv_Storage (spec_Server (lsd_Spec inst)) \<noteq> None
                 then reconcilePVC e inst c else (None, c))) c'"
proof -
  obtain e1 c1 where s1:
    "(if srv_Storage (spec_Server (lsd_Spec inst)) \<noteq> None then reconcilePVC e inst c else (None, c))
       = (e1, c1)"
    by (cases "if srv_Storage (spec_Server (lsd_Spec inst)) \<noteq> None
               then reconcilePVC e inst c else (None, c)") auto
  obtain e2 c2 where s2: "reconcileNetworkPolicy r e inst c1 = (e2, c2)"
    by (cases "reconcileNetworkPolicy r e inst c1") auto
  obtain e3 c3 where s3: "reconcileDeployment r e inst c2 = (e3, c3)"
    by (cases "reconcileDeployment r e inst c2") auto
  obtain e4 c4 where s4: "reconcileService e inst c3 = (e4, c4)"
    by (cases "reconcileService e inst c3") auto
  have t2: "onlyTouches {KindNetworkPolicy} c1 c2"
    by (rule reconcileNetworkPolicy_touches [OF s2])
  have t3: "onlyTouches {KindNetworkPolicy, KindDeployment} c1 c3"
    using onlyTouches_trans [OF t2 reconcileDeployment_touches [OF s3]]
    by (simp add: insert_commute)
  have t4: "onlyTouches {KindNetworkPolicy, KindDeployment, KindService} c1 c4"
    using onlyTouches_trans [OF t3 reconcileService_touches [OF s4]]
    by (simp add: insert_commute)
  have "c' = c1 \<or> c' = c2 \<or> c' = c3 \<or> c' = c4"
    using assms s1 s2 s3 s4
    by (auto simp: reconcileResources_def split: option.splits if_splits)
  then have "onlyTouches {KindNetworkPolicy, KindDeployment, KindService} c1 c'"
    using onlyTouches_refl t2 t3 t4 by (auto elim: onlyTouches_mono)
  then show ?thesis
    using s1 by simp
qed

lemma onlyTouches_noPVC:
  assumes "onlyTouches K c c'" and "KindPVC \<notin> K"
  shows "pvcs c' = pvcs c" and "\<exists>l. calls c' = calls c @ l \<and> (\<forall>x\<in>set l. fst (snd x) \<noteq> KindPVC)"
proof -
  show "pvcs c' = pvcs c"
    using assms by (simp add: onlyTouches_def)
  have "\<exists>l. calls c' = calls c @ l \<and> (\<forall>x\<in>set l. fst (snd x) \<in> K)"
    using assms(1) by (simp add: onlyTouches_def)
  then obtain l where l: "calls c' = calls c @ l" "\<forall>x\<in>set l. fst (snd x) \<in> K"
    by blast
  have "\<forall>x\<in>set l. fst (snd x) \<noteq> KindPVC"
  proof
    fix x
    assume "x \<in> set l"
    then have "fst (snd x) \<in> K"
      using l(2) by simp
    then show "fst (snd x) \<noteq> KindPVC"
      using assms(2) by auto
  qed
  then show "\<exists>l. calls c' = calls c @ l \<and> (\<forall>x\<in>set l. fst (snd x) \<noteq> KindPVC)"
    using l(1) by blast
qed

lemma ex_storage:
  "lsd_Namespace (exInstanceStorage sz) = ''ns''" "lsd_Name (exInstanceStorage sz) = ''a''"
  "srv_Storage (spec_Server (lsd_Spec (exInstanceStorage sz))) = Some \<lparr>storage_Size = sz\<rparr>"
  "pvcs exClusterWithClaim (''ns'', ''a-pvc'') = Some exClaim"
  "pvcs (exCluster inst n) (''ns'', ''a-pvc'') = None"
  "fault exEnv = (\<lambda>s. None)" "DefaultStorageSize exEnv = ''10Gi''"
  by (simp_all add: exInstanceStorage_def withServer_def exInstance_def exClusterWithClaim_def
      exCluster_def exEnv_def)

lemma ex_bad:
  "fetchInstance exEnv (''ns'', ''a'') (exCluster exInstanceBad 3) = Inr (Some exInstanceBad)"
  "dist_Image (srv_Distribution (spec_Server (lsd_Spec exInstanceBad))) = []"
  "DistributionImages exReconciler
     (dist_Name (srv_Distribution (spec_Server (lsd_Spec exInstanceBad)))) = None"
  "keyOf exInstanceBad = (''ns'', ''a'')"
  by (simp_all add: fetchInstance_def Get_def exEnv_def exCluster_def exInstanceBad_def
      exInstanceStorage_def withServer_def exInstance_def exReconciler_def keyOf_def)

section \<open>Claims\<close>




text \<open>
  C2.  As stated (after every status update the available replicas equal the
  last-observed ready replicas of the workload, also when the phase is Failed because
  of a synchronization error) the claim does not hold of the code, as the example
  after the next shows.  Amended: for every status evaluation that reaches the status
  write, without a synchronization error the available replicas are the ready
  replicas the pass read from the workload (0 when the workload is not found), also
  when the phase ends Failed after an unhealthy probe; with a synchronization error
  the workload is not read and the available replicas are left as fetched.  When the
  write succeeds, the stored status carries that value.
\<close>

theorem available_replicas_after_update:
  assumes "updateStatus r e inst rerr c = (serr, inst', c')"
    and "rerr \<noteq> None \<or> fault e SiteStatusDeploymentGet = None"
  shows "availableOf inst' =
           (case rerr of Some x \<Rightarrow> availableOf inst | None \<Rightarrow> observedReadyReplicas c inst)
       \<and> (serr = None \<longrightarrow>
            map_option availableOf (lsds c' (keyOf inst)) = Some (availableOf inst'))"
proof -
  have persisted: "map_option availableOf (lsds c' (keyOf inst)) = Some (availableOf inst')"
    if "map_option lsd_Status (lsds c' (keyOf inst)) = Some (lsd_Status inst')"
    using that by (auto simp: availableOf_def)
  show ?thesis
  proof (cases rerr)
    case (Some x)
    then show ?thesis
      using updateStatus_syncError(2,8) [of r e inst x c serr inst' c'] assms(1) persisted
      by simp
  next
    case None
    then have f: "fault e SiteStatusDeploymentGet = None"
      using assms(2) by simp
    show ?thesis
    proof (cases "workloadReady c inst")
      case True
      then show ?thesis
        using updateStatus_ready(4,6) [OF f True, of r serr inst' c'] assms(1) None persisted
        by simp
    next
      case False
      then show ?thesis
        using updateStatus_notReady(2,7) [OF f False, of r serr inst' c'] assms(1) None persisted
        by simp
    qed
  qed
qed

text \<open>
  The statement at a ready workload whose probe is unhealthy: phase Failed, three
  available replicas, written to the cluster.
\<close>

theorem available_replicas_after_update_witness:
  "fault exUnhealthy SiteStatusDeploymentGet = None
   \<and> fst (updateStatus exReconciler exUnhealthy exInstance None (exCluster exInstance 3)) = None
   \<and> phaseOf (evaluated exReconciler exUnhealthy exInstance (exCluster exInstance 3))
       = LlamaStackDistributionPhaseFailed
   \<and> availableOf (evaluated exReconciler exUnhealthy exInstance (exCluster exInstance 3)) = 3
   \<and> map_option availableOf
       (lsds (snd (snd (updateStatus exReconciler exUnhealthy exInstance None
                          (exCluster exInstance 3)))) (''ns'', ''a'')) = Some 3"
proof -
  have s: "fst (updateStatus exReconciler exUnhealthy exInstance None (exCluster exInstance 3)) = None"
    by (simp add: eval_defs exUnhealthy_def)
  have p: "phaseOf (evaluated exReconciler exUnhealthy exInstance (exCluster exInstance 3))
       = LlamaStackDistributionPhaseFailed"
    using updateStatus_ready(1) [OF _ ex_ready evaluated_eq, of exUnhealthy exReconciler]
    by (simp add: ex_health_url)
  have o: "observedReadyReplicas (exCluster exInstance 3) exInstance = 3"
    by (simp add: observedReadyReplicas_def ex_key exCluster_def exDeployment_def)
  have f: "fault exUnhealthy SiteStatusDeploymentGet = None"
    by (simp add: ex_health_url)
  note t = available_replicas_after_update
      [OF evaluated_eq, of exUnhealthy exReconciler exInstance "exCluster exInstance 3"]
  have a: "availableOf (evaluated exReconciler exUnhealthy exInstance (exCluster exInstance 3)) = 3"
    using t o f by simp
  have b: "map_option availableOf
       (lsds (snd (snd (updateStatus exReconciler exUnhealthy exInstance None
                          (exCluster exInstance 3)))) (''ns'', ''a'')) = Some 3"
    using t s f unfolding a ex_key by simp
  show ?thesis
    using a b s p f by simp
qed

text \<open>
  Two passes over a workload that has two ready replicas throughout: the first reads
  the workload, but its status write fails; the second has a synchronization error,
  so it does not read the workload, and writes a status with phase Failed and the
  available replicas it fetched, 0.
\<close>

theorem available_replicas_stale_counterexample:
  "map_option dep_ReadyReplicas (deployments (exCluster exInstance 2) (''ns'', ''a'')) = Some 2
   \<and> map_option availableOf (fst (snd exPass1)) = Some 2
   \<and> snd (fst exPass1) = Some (Wrapped ''failed to update status'' (Err ''conflict''))
   \<and> snd (fst exPass2) = Some exSyncError
   \<and> calls (snd (snd exPass2)) = calls (snd (snd exPass1)) @ [(Update, KindStatus, (''ns'', ''a''))]
   \<and> map_option phaseOf (lsds (snd (snd exPass2)) (''ns'', ''a''))
       = Some LlamaStackDistributionPhaseFailed
   \<and> map_option availableOf (lsds (snd (snd exPass2)) (''ns'', ''a'')) = Some 0
   \<and> map_option dep_ReadyReplicas (deployments (snd (snd exPass2)) (''ns'', ''a'')) = Some 2"
proof -
  obtain res1 err1 oi1 c1 where e1: "exPass1 = ((res1, err1), oi1, c1)"
    by (metis prod.collapse)
  have p1: "map_option availableOf (fst (snd exPass1)) = Some 2"
    "snd (fst exPass1) = Some (Wrapped ''failed to update status'' (Err ''conflict''))"
    "lsds (snd (snd exPass1)) = lsds (exCluster exInstance 2)"
    "map_option dep_ReadyReplicas (deployments (snd (snd exPass1)) (''ns'', ''a'')) = Some 2"
    "pvcs (snd (snd exPass1)) = Map.empty" "networkPolicies (snd (snd exPass1)) = Map.empty"
    using ex_pass1 unfolding e1 by simp_all
  have f: "fetchInstance exApplyFails (''ns'', ''a'') (snd (snd exPass1)) = Inr (Some exInstance)"
    by (simp add: fetchInstance_def Get_def p1(3) exApplyFails_def exEnvFaults_def exEnv_def
        exCluster_def)
  have rr: "reconcileResources exReconciler exApplyFails exInstance (snd (snd exPass1))
              = (Some exSyncError, snd (snd exPass1))"
    by (simp add: reconcileResources_def reconcileNetworkPolicy_def HandleDisabledNetworkPolicy_def
        reconcileDeployment_def validateDistribution_def resolveImage_def ApplyDeployment_def
        buildContainerSpec_def configurePodStorage_def Let_def p1
        exApplyFails_def exEnvFaults_def exEnv_def exReconciler_def exInstance_def exSyncError_def)
  obtain serr inst1 c2 where us:
    "updateStatus exReconciler exApplyFails exInstance (Some exSyncError) (snd (snd exPass1))
       = (serr, inst1, c2)"
    by (cases "updateStatus exReconciler exApplyFails exInstance (Some exSyncError)
                 (snd (snd exPass1))") auto
  have serr: "serr = None"
    using us
    by (auto simp: updateStatus_def StatusUpdate_def logCall_def Let_def p1(3)
        exApplyFails_def exEnvFaults_def exEnv_def exInstance_def exCluster_def status_defs
        split: option.splits if_splits)
  note se = updateStatus_syncError [OF us]
  have p2: "snd (fst exPass2) = Some exSyncError" "snd (snd exPass2) = c2"
    unfolding exPass2_def using Reconcile_found [OF f rr us] by simp_all
  have st: "map_option lsd_Status (lsds c2 (''ns'', ''a'')) = Some (lsd_Status inst1)"
    using se(8) serr by (simp add: ex_key)
  have a0: "availableOf exInstance = 0"
    by (simp add: availableOf_def exInstance_def)
  have q: "map_option phaseOf (lsds c2 (''ns'', ''a'')) = Some LlamaStackDistributionPhaseFailed"
    "map_option availableOf (lsds c2 (''ns'', ''a'')) = Some 0"
    using st se(1,2) a0 by (auto simp: phaseOf_def availableOf_def)
  have d0: "map_option dep_ReadyReplicas (deployments (exCluster exInstance 2) (''ns'', ''a''))
              = Some 2"
    by (simp add: exCluster_def exDeployment_def zeroDeployment_def)
  have d2: "map_option dep_ReadyReplicas (deployments c2 (''ns'', ''a'')) = Some 2"
    using se(7) p1(4) by simp
  have c2: "calls c2 = calls (snd (snd exPass1)) @ [(Update, KindStatus, (''ns'', ''a''))]"
    using se(5) by (simp add: ex_key)
  show ?thesis
    unfolding p2 using p1(1,2) q d0 d2 c2 by simp
qed

text \<open>
  C3.  As stated (every pass that finds the resource attempts to persist the status)
  the claim does not hold of the code, as the example after the next shows.  Amended:
  on every pass that fetched the resource, the calls issued after the synchronization
  step are exactly one status write if the synchronization returned an error, or if
  it returned none and the read of the workload for the status did not fail with an
  error other than not-found; the write carries the status as the pass recomputed it,
  which is what the cluster stores when the write does not fail.  Otherwise, that is
  with no synchronization error and a failed read of the workload, there is no call,
  the cluster is left as the synchronization left it, and the pass returns the read
  error with the empty result.
\<close>

theorem status_write_attempted:
  assumes "fetchInstance e req c = Inr (Some inst)"
    and "reconcileResources r e inst c = (rerr, c1)"
    and "Reconcile r e req c = ((res, err), oi, c2)"
  shows "calls c2 =
           calls c1 @
             (if rerr \<noteq> None \<or> fault e SiteStatusDeploymentGet = None
              then [(Update, KindStatus, keyOf inst)] else [])
       \<and> (rerr \<noteq> None \<or> fault e SiteStatusDeploymentGet = None \<longrightarrow>
            (\<exists>inst1. oi = Some inst1
               \<and> (fault e SiteStatusUpdate = None \<and> lsds c1 (keyOf inst) \<noteq> None \<longrightarrow>
                    map_option lsd_Status (lsds c2 (keyOf inst)) = Some (lsd_Status inst1))))
       \<and> (\<forall>msg. rerr = None \<and> fault e SiteStatusDeploymentGet = Some msg \<longrightarrow>
              err = Some (Wrapped ''failed to fetch deployment for status'' (Err msg))
              \<and> res = emptyResult \<and> c2 = c1)"
proof -
  obtain serr inst1 c2' where us: "updateStatus r e inst rerr c1 = (serr, inst1, c2')"
    by (cases "updateStatus r e inst rerr c1") auto
  have re: "err = (case rerr of Some x \<Rightarrow> Some x | None \<Rightarrow> serr)" "oi = Some inst1" "c2 = c2'"
    and res: "serr \<noteq> None \<longrightarrow> res = emptyResult"
    using Reconcile_found [OF assms(1,2) us] assms(3) by auto
  show ?thesis
  proof (cases rerr)
    case (Some x)
    note se = updateStatus_syncError [OF us [unfolded Some]]
    show ?thesis
      using se(5) se(8) se(9) re Some by simp
  next
    case None
    show ?thesis
    proof (cases "fault e SiteStatusDeploymentGet")
      case (Some msg)
      then show ?thesis
        using updateStatus_fetchFault [of e msg r inst c1 serr inst1 c2'] us re res None
        by simp
    next
      case noFault: None
      show ?thesis
      proof (cases "workloadReady c1 inst")
        case True
        note ur = updateStatus_ready [OF noFault True us [unfolded None]]
        show ?thesis
          using ur(5) ur(6) ur(7) re None noFault by simp
      next
        case False
        note un = updateStatus_notReady [OF noFault False us [unfolded None]]
        show ?thesis
          using un(6) un(7) un(8) re None noFault by simp
      qed
    qed
  qed
qed

text \<open>
  The statement at a pass whose synchronization fails and whose status write
  succeeds, and at a pass whose synchronization succeeds and whose read of the
  workload for the status fails.
\<close>

theorem status_write_attempted_witness:
  "fetchInstance exApplyFails (''ns'', ''a'') (exCluster exInstance 3) = Inr (Some exInstance)
   \<and> reconcileResources exReconciler exApplyFails exInstance (exCluster exInstance 3)
       = (Some exSyncError, exCluster exInstance 3)
   \<and> fault exApplyFails SiteStatusUpdate = None
   \<and> lsds (exCluster exInstance 3) (keyOf exInstance) = Some exInstance
   \<and> calls (snd (snd (Reconcile exReconciler exApplyFails (''ns'', ''a'')
                         (exCluster exInstance 3))))
       = [(Update, KindStatus, (''ns'', ''a''))]
   \<and> map_option lsd_Status
        (lsds (snd (snd (Reconcile exReconciler exApplyFails (''ns'', ''a'')
                           (exCluster exInstance 3)))) (''ns'', ''a''))
       = map_option lsd_Status
           (fst (snd (Reconcile exReconciler exApplyFails (''ns'', ''a'')
                        (exCluster exInstance 3))))
   \<and> fetchInstance exReadFails (''ns'', ''a'') (exCluster exInstance 3) = Inr (Some exInstance)
   \<and> reconcileResources exReconciler exReadFails exInstance (exCluster exInstance 3)
       = (None, exCluster exInstance 3)
   \<and> fault exReadFails SiteStatusDeploymentGet = Some ''timeout''
   \<and> fst (Reconcile exReconciler exReadFails (''ns'', ''a'') (exCluster exInstance 3))
       = (emptyResult, Some (Wrapped ''failed to fetch deployment for status'' (Err ''timeout'')))
   \<and> snd (snd (Reconcile exReconciler exReadFails (''ns'', ''a'') (exCluster exInstance 3)))
       = exCluster exInstance 3"
proof -
  note a = status_write_attempted [OF ex_apply_fails(1) ex_apply_fails(2) quad_eq]
  note b = status_write_attempted [OF ex_read_fails(1) ex_read_fails(2) quad_eq]
  have a1: "calls (snd (snd (Reconcile exReconciler exApplyFails (''ns'', ''a'')
                         (exCluster exInstance 3))))
       = [(Update, KindStatus, (''ns'', ''a''))]"
    using a ex_apply_fails(5) by (simp add: ex_key)
  have a2: "map_option lsd_Status
        (lsds (snd (snd (Reconcile exReconciler exApplyFails (''ns'', ''a'')
                           (exCluster exInstance 3)))) (''ns'', ''a''))
       = map_option lsd_Status
           (fst (snd (Reconcile exReconciler exApplyFails (''ns'', ''a'')
                        (exCluster exInstance 3))))"
    using a ex_apply_fails(3,4) by (auto simp: ex_key)
  have b1: "fst (Reconcile exReconciler exReadFails (''ns'', ''a'') (exCluster exInstance 3))
       = (emptyResult, Some (Wrapped ''failed to fetch deployment for status'' (Err ''timeout'')))"
    "snd (snd (Reconcile exReconciler exReadFails (''ns'', ''a'') (exCluster exInstance 3)))
       = exCluster exInstance 3"
    using b ex_read_fails(3) by (auto simp: prod_eq_iff)
  show ?thesis
    using a1 a2 b1 ex_apply_fails ex_read_fails by (simp add: ex_key)
qed

text \<open>
  When the synchronization succeeded and the read of the workload for the status
  fails with an error other than not-found, the pass returns that error and issues no
  status write.
\<close>

theorem status_write_skipped_counterexample:
  "fetchInstance exReadFails (''ns'', ''a'') (exCluster exInstance 3) = Inr (Some exInstance)
   \<and> fst (reconcileResources exReconciler exReadFails exInstance (exCluster exInstance 3)) = None
   \<and> (Update, KindStatus, (''ns'', ''a''))
       \<notin> set (calls (snd (snd (Reconcile exReconciler exReadFails (''ns'', ''a'')
                                   (exCluster exInstance 3)))))
   \<and> snd (fst (Reconcile exReconciler exReadFails (''ns'', ''a'') (exCluster exInstance 3)))
       = Some (Wrapped ''failed to fetch deployment for status'' (Err ''timeout''))"
  by (simp add: eval_defs)

text \<open>
  C4.  Status evaluation of a pass without synchronization error, the workload
  present, three replicas desired: no ready replica gives phase Initializing; two
  give Initializing and the message "Deployment is scaling: 2/3 replicas ready",
  which contains "2/3"; three and a probe answered with status 200 give Ready; four
  give Initializing and the message "Deployment is scaling down: 4/3 replicas ready".
  The cases are tried in the order zero, fewer, more, equal: for every number of
  ready replicas the workload condition carries the message of the first case that
  applies, so no ready replica gives the pending message, not a scaling one.
\<close>

theorem phase_under_scaling:
  assumes "fault e SiteStatusDeploymentGet = None"
    and "spec_Replicas (lsd_Spec inst) = 3"
  shows "phaseOf (evaluated r e inst (withReadyReplicas 0 d inst c))
           = LlamaStackDistributionPhaseInitializing
       \<and> phaseOf (evaluated r e inst (withReadyReplicas 2 d inst c))
           = LlamaStackDistributionPhaseInitializing
       \<and> (\<exists>m. conditionOf ConditionTypeDeploymentReady
                 (evaluated r e inst (withReadyReplicas 2 d inst c))
                 = Some \<lparr>cond_Ready = False, cond_Message = m\<rparr>
              \<and> m = ''Deployment is scaling: 2/3 replicas ready'' \<and> sublist ''2/3'' m)
       \<and> (http e (getServerURL inst ''/v1/health'') = Response 200 body \<longrightarrow>
            phaseOf (evaluated r e inst (withReadyReplicas 3 d inst c))
              = LlamaStackDistributionPhaseReady)
       \<and> phaseOf (evaluated r e inst (withReadyReplicas 4 d inst c))
           = LlamaStackDistributionPhaseInitializing
       \<and> conditionOf ConditionTypeDeploymentReady
           (evaluated r e inst (withReadyReplicas 4 d inst c))
           = Some \<lparr>cond_Ready = False,
                   cond_Message = ''Deployment is scaling down: 4/3 replicas ready''\<rparr>
       \<and> (\<forall>n. conditionOf ConditionTypeDeploymentReady
                 (evaluated r e inst (withReadyReplicas n d inst c))
               = Some \<lparr>cond_Ready = (n = 3),
                       cond_Message =
                         (if n = 0 then MessageDeploymentPending e
                          else if n < 3 then
                            ''Deployment is scaling: '' @ fmtInt n @ ''/3 replicas ready''
                          else if n > 3 then
                            ''Deployment is scaling down: '' @ fmtInt n @ ''/3 replicas ready''
                          else MessageDeploymentReady e)\<rparr>)"
proof -
  have found: "deployments (withReadyReplicas n d inst c) (keyOf inst)
                 = Some (d\<lparr>dep_ReadyReplicas := n\<rparr>)" for n
    by (simp add: withReadyReplicas_def)
  have notReady: "phaseOf (evaluated r e inst (withReadyReplicas n d inst c))
                    = LlamaStackDistributionPhaseInitializing" if "n \<noteq> 3" for n
    using updateStatus_notReady(1)
        [OF assms(1) _ evaluated_eq [of r e inst "withReadyReplicas n d inst c"]]
      that assms(2) found by simp
  have cond: "conditionOf ConditionTypeDeploymentReady
                 (evaluated r e inst (withReadyReplicas n d inst c))
               = Some \<lparr>cond_Ready = (n = 3),
                       cond_Message =
                         (if n = 0 then MessageDeploymentPending e
                          else if n < 3 then
                            ''Deployment is scaling: '' @ fmtInt n @ ''/3 replicas ready''
                          else if n > 3 then
                            ''Deployment is scaling down: '' @ fmtInt n @ ''/3 replicas ready''
                          else MessageDeploymentReady e)\<rparr>" for n
    using updateStatus_deploymentCondition
        [OF assms(1) found [of n] evaluated_eq [of r e inst "withReadyReplicas n d inst c"]]
    by (auto simp: assms(2) fmtInt_digit)
  have ready: "phaseOf (evaluated r e inst (withReadyReplicas 3 d inst c))
                 = LlamaStackDistributionPhaseReady"
    if "http e (getServerURL inst ''/v1/health'') = Response 200 body"
    using updateStatus_ready(1)
        [OF assms(1) _ evaluated_eq [of r e inst "withReadyReplicas 3 d inst c"]]
      that assms(2) by simp
  have sub: "sublist ''2/3'' ''Deployment is scaling: 2/3 replicas ready''"
    by (simp add: sublist_Cons_right prefix_Cons)
  show ?thesis
    using notReady [of 0] notReady [of 2] notReady [of 4] cond [of 2] cond [of 4] cond ready sub
    by (simp add: fmtInt_digit)
qed

text \<open>
  The statement at a cluster whose probe is answered with status 200.
\<close>

theorem phase_under_scaling_witness:
  "fault exEnv SiteStatusDeploymentGet = None
   \<and> spec_Replicas (lsd_Spec exInstance) = 3
   \<and> http exEnv (getServerURL exInstance ''/v1/health'') = Response 200 (Inr ''{}'')
   \<and> phaseOf (evaluated exReconciler exEnv exInstance
         (withReadyReplicas 0 (exDeployment 1) exInstance (exCluster exInstance 1)))
       = LlamaStackDistributionPhaseInitializing
   \<and> phaseOf (evaluated exReconciler exEnv exInstance
         (withReadyReplicas 2 (exDeployment 1) exInstance (exCluster exInstance 1)))
       = LlamaStackDistributionPhaseInitializing
   \<and> phaseOf (evaluated exReconciler exEnv exInstance
         (withReadyReplicas 3 (exDeployment 1) exInstance (exCluster exInstance 1)))
       = LlamaStackDistributionPhaseReady
   \<and> phaseOf (evaluated exReconciler exEnv exInstance
         (withReadyReplicas 4 (exDeployment 1) exInstance (exCluster exInstance 1)))
       = LlamaStackDistributionPhaseInitializing"
  using phase_under_scaling [where e = exEnv and inst = exInstance and r = exReconciler
      and d = "exDeployment 1" and c = "exCluster exInstance 1" and body = "Inr ''{}''"]
  by (simp add: ex_health_url ex_replicas)

text \<open>
  C5.  Status evaluation of a pass without synchronization error, the workload
  ready: a health request that cannot be built or sent gives phase Initializing and
  the health condition false; an answer with a status other than 200 gives Failed and
  false; an answer with status 200 gives Ready and true.  The probe reports healthy
  exactly when the answer's status is 200.
\<close>

theorem health_probe_decides_phase:
  assumes "fault e SiteStatusDeploymentGet = None"
    and "workloadReady c inst"
    and "updateStatus r e inst None c = (serr, inst', c')"
  shows "(phaseOf inst', map_option cond_Ready (conditionOf ConditionTypeHealthCheck inst')) =
           (case http e (getServerURL inst ''/v1/health'') of
              NewRequestError err \<Rightarrow> (LlamaStackDistributionPhaseInitializing, Some False)
            | DoError err \<Rightarrow> (LlamaStackDistributionPhaseInitializing, Some False)
            | Response code body \<Rightarrow>
                (if code = 200 then (LlamaStackDistributionPhaseReady, Some True)
                 else (LlamaStackDistributionPhaseFailed, Some False)))
       \<and> (fst (checkHealth e inst c) = Inr True
            \<longleftrightarrow> (\<exists>body. http e (getServerURL inst ''/v1/health'') = Response 200 body))"
proof -
  have "fst (checkHealth e inst c) = Inr True
          \<longleftrightarrow> (\<exists>body. http e (getServerURL inst ''/v1/health'') = Response 200 body)"
    unfolding checkHealth_fst by (auto split: http_outcome.splits)
  then show ?thesis
    using updateStatus_ready(1,2) [OF assms]
    by (simp split: http_outcome.splits)
qed

text \<open>
  The statement at three environments: the probe answered with 200, with 503, and
  timing out.
\<close>

theorem health_probe_decides_phase_witness:
  "workloadReady (exCluster exInstance 3) exInstance
   \<and> phaseOf (evaluated exReconciler exEnv exInstance (exCluster exInstance 3))
       = LlamaStackDistributionPhaseReady
   \<and> map_option cond_Ready (conditionOf ConditionTypeHealthCheck
         (evaluated exReconciler exEnv exInstance (exCluster exInstance 3))) = Some True
   \<and> phaseOf (evaluated exReconciler exUnhealthy exInstance (exCluster exInstance 3))
       = LlamaStackDistributionPhaseFailed
   \<and> map_option cond_Ready (conditionOf ConditionTypeHealthCheck
         (evaluated exReconciler exUnhealthy exInstance (exCluster exInstance 3))) = Some False
   \<and> phaseOf (evaluated exReconciler exUnreachable exInstance (exCluster exInstance 3))
       = LlamaStackDistributionPhaseInitializing
   \<and> map_option cond_Ready (conditionOf ConditionTypeHealthCheck
         (evaluated exReconciler exUnreachable exInstance (exCluster exInstance 3))) = Some False"
  using health_probe_decides_phase [OF _ ex_ready evaluated_eq, of exEnv exReconciler]
    health_probe_decides_phase [OF _ ex_ready evaluated_eq, of exUnhealthy exReconciler]
    health_probe_decides_phase [OF _ ex_ready evaluated_eq, of exUnreachable exReconciler]
    ex_ready
  by (simp add: ex_health_url)

text \<open>
  C6.  As stated (a pass with an unresolvable distribution reference ends with phase
  Failed and has created no child resource) the claim does not hold of the code, as
  the example after the next shows.  Amended: for every pass whose distribution
  reference has no explicit image and a name that is empty or unknown, the pass
  returns an error and ends with phase Failed, the workloads and the endpoints of the
  cluster are unchanged, and the only calls issued are for the storage claim and the
  ingress policy, which are synchronized before the reference is validated, followed
  by the status write.
\<close>

theorem unresolvable_distribution_fails:
  assumes "fetchInstance e req c = Inr (Some inst)"
    and "dist_Image (srv_Distribution (spec_Server (lsd_Spec inst))) = []"
    and "dist_Name (srv_Distribution (spec_Server (lsd_Spec inst))) = []
         \<or> DistributionImages r (dist_Name (srv_Distribution (spec_Server (lsd_Spec inst)))) = None"
    and "Reconcile r e req c = ((res, err), oi, c')"
  shows "err \<noteq> None
       \<and> map_option phaseOf oi = Some LlamaStackDistributionPhaseFailed
       \<and> deployments c' = deployments c \<and> services c' = services c
       \<and> (\<exists>l. calls c' = calls c @ l @ [(Update, KindStatus, keyOf inst)]
              \<and> (\<forall>x\<in>set l. fst (snd x) \<in> {KindPVC, KindNetworkPolicy}))"
proof -
  obtain rerr c1 where rr: "reconcileResources r e inst c = (rerr, c1)"
    by (cases "reconcileResources r e inst c") auto
  obtain serr inst1 c2 where us: "updateStatus r e inst rerr c1 = (serr, inst1, c2)"
    by (cases "updateStatus r e inst rerr c1") auto
  have bad: "rerr \<noteq> None" and t: "onlyTouches {KindPVC, KindNetworkPolicy} c c1"
    using reconcileResources_unresolvable [OF assms(2,3) rr] by simp_all
  then obtain x where x: "rerr = Some x"
    by auto
  note se = updateStatus_syncError [OF us [unfolded x]]
  have re: "err = Some x" "oi = Some inst1" "c' = c2"
    using Reconcile_found [OF assms(1) rr us] assms(4) x by simp_all
  obtain l where l: "calls c1 = calls c @ l" "\<forall>x\<in>set l. fst (snd x) \<in> {KindPVC, KindNetworkPolicy}"
    using t unfolding onlyTouches_def by blast
  have "calls c' = calls c @ l @ [(Update, KindStatus, keyOf inst)]"
    using se(5) l(1) re(3) by simp
  moreover have "deployments c' = deployments c" "services c' = services c"
    using se(7) t re(3) by (simp_all add: onlyTouches_def)
  ultimately show ?thesis
    using re se(1) l(2) by auto
qed

text \<open>
  The statement at an instance with an unknown distribution name.
\<close>

theorem unresolvable_distribution_fails_witness:
  "fetchInstance exEnv (''ns'', ''a'') (exCluster exInstanceBad 3) = Inr (Some exInstanceBad)
   \<and> dist_Image (srv_Distribution (spec_Server (lsd_Spec exInstanceBad))) = []
   \<and> DistributionImages exReconciler
        (dist_Name (srv_Distribution (spec_Server (lsd_Spec exInstanceBad)))) = None
   \<and> snd (fst (Reconcile exReconciler exEnv (''ns'', ''a'') (exCluster exInstanceBad 3))) \<noteq> None
   \<and> map_option phaseOf
        (fst (snd (Reconcile exReconciler exEnv (''ns'', ''a'') (exCluster exInstanceBad 3))))
       = Some LlamaStackDistributionPhaseFailed
   \<and> deployments (snd (snd (Reconcile exReconciler exEnv (''ns'', ''a'')
                               (exCluster exInstanceBad 3))))
       = deployments (exCluster exInstanceBad 3)
   \<and> services (snd (snd (Reconcile exReconciler exEnv (''ns'', ''a'')
                            (exCluster exInstanceBad 3))))
       = services (exCluster exInstanceBad 3)"
proof -
  have re: "Reconcile exReconciler exEnv (''ns'', ''a'') (exCluster exInstanceBad 3) =
     ((fst (fst (Reconcile exReconciler exEnv (''ns'', ''a'') (exCluster exInstanceBad 3))),
       snd (fst (Reconcile exReconciler exEnv (''ns'', ''a'') (exCluster exInstanceBad 3)))),
      fst (snd (Reconcile exReconciler exEnv (''ns'', ''a'') (exCluster exInstanceBad 3))),
      snd (snd (Reconcile exReconciler exEnv (''ns'', ''a'') (exCluster exInstanceBad 3))))"
    by simp
  show ?thesis
    using unresolvable_distribution_fails [OF ex_bad(1) ex_bad(2) disjI2 [OF ex_bad(3)] re] ex_bad
    by simp
qed

text \<open>
  The storage claim is synchronized before the distribution reference is validated.
  Here storage is requested, no claim exists and the distribution name is unknown; the
  pass ends with phase Failed and has created the claim.
\<close>

theorem unresolvable_distribution_creates_claim_counterexample:
  "dist_Image (srv_Distribution (spec_Server (lsd_Spec exInstanceBad))) = []
   \<and> DistributionImages exReconciler
        (dist_Name (srv_Distribution (spec_Server (lsd_Spec exInstanceBad)))) = None
   \<and> pvcs (exCluster exInstanceBad 3) (''ns'', ''a-pvc'') = None
   \<and> map_option phaseOf
        (fst (snd (Reconcile exReconciler exEnv (''ns'', ''a'') (exCluster exInstanceBad 3))))
       = Some LlamaStackDistributionPhaseFailed
   \<and> map_option pvc_StorageRequest
        (pvcs (snd (snd (Reconcile exReconciler exEnv (''ns'', ''a'') (exCluster exInstanceBad 3))))
           (''ns'', ''a-pvc'')) = Some ''10Gi''
   \<and> calls (snd (snd (Reconcile exReconciler exEnv (''ns'', ''a'') (exCluster exInstanceBad 3))))
       = [(Create, KindPVC, (''ns'', ''a-pvc'')), (Update, KindStatus, (''ns'', ''a''))]"
  by (simp add: eval_defs exInstanceBad_def exInstanceStorage_def withServer_def)

text \<open>
  C7.  For every pass that fetched the resource, the error returned is the
  synchronization error if there is one, and otherwise what the status update
  returned; so with both errors the synchronization error is reported, and a returned
  status-write error means that there was no synchronization error.
\<close>

theorem sync_error_reported_first:
  assumes "fetchInstance e req c = Inr (Some inst)"
    and "reconcileResources r e inst c = (rerr, c1)"
    and "updateStatus r e inst rerr c1 = (serr, inst1, c2)"
  shows "snd (fst (Reconcile r e req c)) = (case rerr of Some x \<Rightarrow> Some x | None \<Rightarrow> serr)
       \<and> (\<forall>z. snd (fst (Reconcile r e req c)) = Some (Wrapped ''failed to update status'' z)
              \<longrightarrow> rerr = None)"
proof -
  have rep: "snd (fst (Reconcile r e req c)) = (case rerr of Some x \<Rightarrow> Some x | None \<Rightarrow> serr)"
    by (simp add: Reconcile_found [OF assms])
  have "rerr = None" if "snd (fst (Reconcile r e req c)) = Some (Wrapped ''failed to update status'' z)"
    for z
  proof (cases rerr)
    case None
    then show ?thesis .
  next
    case (Some x)
    then show ?thesis
      using reconcileResources_error [of r e inst c x c1] assms(2) that rep by auto
  qed
  then show ?thesis
    using rep by blast
qed

text \<open>
  The statement at a pass where both the workload apply and the status write fail,
  and at a pass where only the status write fails.
\<close>

theorem sync_error_reported_first_witness:
  "fetchInstance exBothFail (''ns'', ''a'') (exCluster exInstance 3) = Inr (Some exInstance)
   \<and> fst (reconcileResources exReconciler exBothFail exInstance (exCluster exInstance 3))
       = Some exSyncError
   \<and> fst (updateStatus exReconciler exBothFail exInstance (Some exSyncError)
            (exCluster exInstance 3))
       = Some (Wrapped ''failed to update status'' (Err ''conflict''))
   \<and> snd (fst (Reconcile exReconciler exBothFail (''ns'', ''a'') (exCluster exInstance 3)))
       = Some exSyncError
   \<and> fst (reconcileResources exReconciler exWriteFails exInstance (exCluster exInstance 3)) = None
   \<and> snd (fst (Reconcile exReconciler exWriteFails (''ns'', ''a'') (exCluster exInstance 3)))
       = Some (Wrapped ''failed to update status'' (Err ''conflict''))"
  using sync_error_reported_first [OF ex_both_fail(1) ex_both_fail(2) triple_eq]
    sync_error_reported_first [OF ex_write_fails(1) prod.collapse [symmetric] triple_eq]
    ex_both_fail ex_write_fails
  by simp

text \<open>
  C8.  For every run of the synchronizer: if a claim of the deterministic name
  exists, the claims in the cluster are unchanged and no call for a claim is issued,
  whatever size the spec requests; if storage is requested, no claim exists, and
  setting the owner, the read and the create do not fail, the claim is created with
  the requested size, or the default size when the spec gives none, and the access mode
  ReadWriteOnce.
\<close>

theorem storage_claim_immutable:
  assumes "reconcileResources r e inst c = (err, c')"
  shows "(\<forall>p. pvcs c (lsd_Namespace inst, lsd_Name inst @ ''-pvc'') = Some p \<longrightarrow>
            pvcs c' = pvcs c
            \<and> (\<exists>l. calls c' = calls c @ l \<and> (\<forall>x\<in>set l. fst (snd x) \<noteq> KindPVC)))
       \<and> (\<forall>st. srv_Storage (spec_Server (lsd_Spec inst)) = Some st
              \<and> pvcs c (lsd_Namespace inst, lsd_Name inst @ ''-pvc'') = None
              \<and> fault e SiteSetControllerReference = None
              \<and> fault e SitePVCGet = None \<and> fault e SitePVCCreate = None \<longrightarrow>
            pvcs c' = (pvcs c)((lsd_Namespace inst, lsd_Name inst @ ''-pvc'') \<mapsto>
                 \<lparr>pvc_Name = lsd_Name inst @ ''-pvc'',
                  pvc_Namespace = lsd_Namespace inst,
                  pvc_Owner = Some (lsd_Namespace inst, lsd_Name inst),
                  pvc_AccessModes = [''ReadWriteOnce''],
                  pvc_StorageRequest =
                    (case storage_Size st of None \<Rightarrow> DefaultStorageSize e | Some q \<Rightarrow> q),
                  pvc_Phase = []\<rparr>)
            \<and> (\<exists>l. calls c' =
                      calls c @ (Create, KindPVC, (lsd_Namespace inst, lsd_Name inst @ ''-pvc'')) # l
                   \<and> (\<forall>x\<in>set l. fst (snd x) \<noteq> KindPVC)))"
proof (intro conjI allI impI)
  fix p
  assume ex: "pvcs c (lsd_Namespace inst, lsd_Name inst @ ''-pvc'') = Some p"
  have "onlyTouches {KindNetworkPolicy, KindDeployment, KindService} c c'"
    using reconcileResources_after_storage [OF assms] reconcilePVC_exists [OF ex, of e]
    by (simp split: if_splits)
  then show "pvcs c' = pvcs c" "\<exists>l. calls c' = calls c @ l \<and> (\<forall>x\<in>set l. fst (snd x) \<noteq> KindPVC)"
    using onlyTouches_noPVC [of _ c c'] by simp_all
next
  fix st
  assume h: "srv_Storage (spec_Server (lsd_Spec inst)) = Some st
              \<and> pvcs c (lsd_Namespace inst, lsd_Name inst @ ''-pvc'') = None
              \<and> fault e SiteSetControllerReference = None
              \<and> fault e SitePVCGet = None \<and> fault e SitePVCCreate = None"
  define c1 where "c1 = snd (reconcilePVC e inst c)"
  have c1: "pvcs c1 = (pvcs c)((lsd_Namespace inst, lsd_Name inst @ ''-pvc'') \<mapsto>
                 \<lparr>pvc_Name = lsd_Name inst @ ''-pvc'',
                  pvc_Namespace = lsd_Namespace inst,
                  pvc_Owner = Some (lsd_Namespace inst, lsd_Name inst),
                  pvc_AccessModes = [''ReadWriteOnce''],
                  pvc_StorageRequest =
                    (case storage_Size st of None \<Rightarrow> DefaultStorageSize e | Some q \<Rightarrow> q),
                  pvc_Phase = []\<rparr>)"
    "calls c1 = calls c @ [(Create, KindPVC, (lsd_Namespace inst, lsd_Name inst @ ''-pvc''))]"
    unfolding c1_def using reconcilePVC_creates [of inst st c e] h by simp_all
  have "onlyTouches {KindNetworkPolicy, KindDeployment, KindService} c1 c'"
    using reconcileResources_after_storage [OF assms] h by (simp add: c1_def)
  then have "pvcs c' = pvcs c1"
    "\<exists>l. calls c' = calls c1 @ l \<and> (\<forall>x\<in>set l. fst (snd x) \<noteq> KindPVC)"
    using onlyTouches_noPVC [of _ c1 c'] by simp_all
  then show "pvcs c' = (pvcs c)((lsd_Namespace inst, lsd_Name inst @ ''-pvc'') \<mapsto>
                 \<lparr>pvc_Name = lsd_Name inst @ ''-pvc'',
                  pvc_Namespace = lsd_Namespace inst,
                  pvc_Owner = Some (lsd_Namespace inst, lsd_Name inst),
                  pvc_AccessModes = [''ReadWriteOnce''],
                  pvc_StorageRequest =
                    (case storage_Size st of None \<Rightarrow> DefaultStorageSize e | Some q \<Rightarrow> q),
                  pvc_Phase = []\<rparr>)"
    "\<exists>l. calls c' =
            calls c @ (Create, KindPVC, (lsd_Namespace inst, lsd_Name inst @ ''-pvc'')) # l
         \<and> (\<forall>x\<in>set l. fst (snd x) \<noteq> KindPVC)"
    using c1 by auto
qed

text \<open>
  The statement at an existing claim of 10Gi with 20Gi requested, at no claim with
  20Gi requested, and at no claim with no size requested.
\<close>

theorem storage_claim_immutable_witness:
  "pvcs exClusterWithClaim (''ns'', ''a-pvc'') = Some exClaim
   \<and> pvcs (snd (reconcileResources exReconciler exEnv (exInstanceStorage (Some ''20Gi''))
                  exClusterWithClaim)) (''ns'', ''a-pvc'') = Some exClaim
   \<and> pvcs (exCluster (exInstanceStorage (Some ''20Gi'')) 3) (''ns'', ''a-pvc'') = None
   \<and> map_option pvc_StorageRequest
       (pvcs (snd (reconcileResources exReconciler exEnv (exInstanceStorage (Some ''20Gi''))
                     (exCluster (exInstanceStorage (Some ''20Gi'')) 3))) (''ns'', ''a-pvc''))
       = Some ''20Gi''
   \<and> map_option pvc_StorageRequest
       (pvcs (snd (reconcileResources exReconciler exEnv (exInstanceStorage None)
                     (exCluster (exInstanceStorage None) 3))) (''ns'', ''a-pvc''))
       = Some ''10Gi''"
  using storage_claim_immutable [where r = exReconciler and e = exEnv
        and inst = "exInstanceStorage (Some ''20Gi'')" and c = exClusterWithClaim,
      OF prod.collapse [symmetric]]
    storage_claim_immutable [where r = exReconciler and e = exEnv
        and inst = "exInstanceStorage (Some ''20Gi'')"
        and c = "exCluster (exInstanceStorage (Some ''20Gi'')) 3",
      OF prod.collapse [symmetric]]
    storage_claim_immutable [where r = exReconciler and e = exEnv
        and inst = "exInstanceStorage None" and c = "exCluster (exInstanceStorage None) 3",
      OF prod.collapse [symmetric]]
  by (simp add: ex_storage)

text \<open>
  C9.  For every pass whose fetch of the resource returns not-found, the pass returns
  the empty result and no error and leaves the cluster as it was: no synchronization
  call, no status write, no request.
\<close>

theorem not_found_exits_silently:
  assumes "Get e SiteFetchInstance (lsds c) req = Inl err" and "IsNotFound err"
  shows "Reconcile r e req c = ((\<lparr>RequeueAfter = 0\<rparr>, None), None, c)"
  using assms by (simp add: Reconcile_def fetchInstance_def emptyResult_def)

text \<open>
  The statement at a key under which no resource is stored.
\<close>

theorem not_found_exits_silently_witness:
  "Get exEnv SiteFetchInstance (lsds (exCluster exInstance 3)) (''ns'', ''b'') = Inl NotFound
   \<and> IsNotFound NotFound
   \<and> Reconcile exReconciler exEnv (''ns'', ''b'') (exCluster exInstance 3)
       = ((\<lparr>RequeueAfter = 0\<rparr>, None), None, exCluster exInstance 3)"
  using not_found_exits_silently [where e = exEnv and c = "exCluster exInstance 3"
      and req = "(''ns'', ''b'')" and err = NotFound and r = exReconciler]
  by (simp add: Get_def exEnv_def exCluster_def)

text \<open>
  C10.  For every pass with no synchronization error, the workload present with no
  ready replica, and zero replicas desired: the phase is Initializing, and whenever
  the pass returns no error it asks to be requeued after 10 seconds.
\<close>

theorem scaled_to_zero_never_ready:
  assumes "fetchInstance e req c = Inr (Some inst)"
    and "reconcileResources r e inst c = (None, c1)"
    and "fault e SiteStatusDeploymentGet = None"
    and "deployments c1 (keyOf inst) = Some d"
    and "dep_ReadyReplicas d = 0"
    and "spec_Replicas (lsd_Spec inst) = 0"
    and "Reconcile r e req c = ((res, err), oi, c2)"
  shows "map_option phaseOf oi = Some LlamaStackDistributionPhaseInitializing
       \<and> (err = None \<longrightarrow> res = \<lparr>RequeueAfter = 10 * Second\<rparr>)"
proof -
  obtain serr inst1 c2' where us: "updateStatus r e inst None c1 = (serr, inst1, c2')"
    by (cases "updateStatus r e inst None c1") auto
  have nr: "\<not> workloadReady c1 inst"
    using assms(4,5) by (simp add: workloadReady_def)
  have ph: "phaseOf inst1 = LlamaStackDistributionPhaseInitializing"
    using updateStatus_notReady(1) [OF assms(3) nr us] assms(4) by simp
  show ?thesis
    using Reconcile_found [OF assms(1,2) us] assms(7) ph by auto
qed

text \<open>
  The statement at an instance scaled to zero: the pass succeeds, and is requeued.
\<close>

theorem scaled_to_zero_never_ready_witness:
  "fetchInstance exEnv (''ns'', ''a'') (exCluster exInstanceZero 0) = Inr (Some exInstanceZero)
   \<and> fst (reconcileResources exReconciler exEnv exInstanceZero (exCluster exInstanceZero 0)) = None
   \<and> fault exEnv SiteStatusDeploymentGet = None
   \<and> map_option dep_ReadyReplicas
       (deployments (snd (reconcileResources exReconciler exEnv exInstanceZero
                            (exCluster exInstanceZero 0))) (''ns'', ''a'')) = Some 0
   \<and> spec_Replicas (lsd_Spec exInstanceZero) = 0
   \<and> map_option phaseOf
       (fst (snd (Reconcile exReconciler exEnv (''ns'', ''a'') (exCluster exInstanceZero 0))))
       = Some LlamaStackDistributionPhaseInitializing
   \<and> fst (Reconcile exReconciler exEnv (''ns'', ''a'') (exCluster exInstanceZero 0))
       = (\<lparr>RequeueAfter = 10 * Second\<rparr>, None)"
proof -
  obtain d where d: "deployments (snd (reconcileResources exReconciler exEnv exInstanceZero
                        (exCluster exInstanceZero 0))) (keyOf exInstanceZero) = Some d"
    and d0: "dep_ReadyReplicas d = 0"
    using ex_zero(3) by (auto simp: keyOf_def exInstanceZero_def exInstance_def)
  have rr: "reconcileResources exReconciler exEnv exInstanceZero (exCluster exInstanceZero 0)
              = (None, snd (reconcileResources exReconciler exEnv exInstanceZero
                              (exCluster exInstanceZero 0)))"
    using ex_zero(2) by (metis prod.collapse)
  have f: "fault exEnv SiteStatusDeploymentGet = None"
    and z: "spec_Replicas (lsd_Spec exInstanceZero) = 0"
    by (simp_all add: exEnv_def exInstanceZero_def)
  have re: "Reconcile exReconciler exEnv (''ns'', ''a'') (exCluster exInstanceZero 0)
              = ((\<lparr>RequeueAfter = 10 * Second\<rparr>, None),
                 fst (snd (Reconcile exReconciler exEnv (''ns'', ''a'') (exCluster exInstanceZero 0))),
                 snd (snd (Reconcile exReconciler exEnv (''ns'', ''a'') (exCluster exInstanceZero 0))))"
    using ex_zero(4) by (metis prod.collapse)
  show ?thesis
    using scaled_to_zero_never_ready [OF ex_zero(1) rr f d d0 z re] ex_zero f z by simp
qed

end
